theory Spec2Isabelle
  imports Main
begin

section \<open>Exceptions, console output and the observable trace\<close>

text \<open>
  The exception classes that the code names or that its own steps can raise. Every
  class of the remote library used here is a leaf of its hierarchy, so an
  \<open>except C\<close> clause is modelled as equality of the class; \<open>except Exception\<close>
  catches every value of the type. An exception carries its message (\<open>str(e)\<close>).
\<close>

datatype exn_class =
    RateLimitError | LoginRequired | BadPassword | TwoFactorRequired | ChallengeRequired
  | ClientError | OSError | ValueError | TypeError | KeyError | AttributeError | RuntimeError
  | MarkupError

type_synonym exn = "exn_class \<times> string"

text \<open>
  What a run does besides returning: the remote capability calls it makes (by method
  name), the \<open>time.sleep\<close> delays, and the messages printed through
  \<open>info_message\<close>, \<open>error_message\<close> and \<open>success_message\<close> of utils.py, in order.
  \<open>FileOp\<close> records each attempt of a file-system operation that changes the
  disk (\<open>mkdir\<close>, \<open>write\<close>, \<open>chmod\<close>), whether it succeeds or not.
\<close>

datatype event =
    Call string | Sleep nat | InfoMsg string | ErrorMsg string | SuccessMsg string
  | FileOp string

section \<open>The file system\<close>

text \<open>
  Regular files with their content and permission bits, the directories, and the
  conditions under which the operating system refuses an operation. \<open>parent_dir\<close>
  says whether the session file's parent directory exists, \<open>mkdir_ok\<close> whether a
  missing one can be created. A path in \<open>dirs\<close> is a directory: it exists, it cannot
  be opened as a file, its permission bits are not tracked. \<open>DiskFull n\<close> is a disk
  with room for \<open>n\<close> more characters: a longer write leaves what fitted and fails.
  \<open>expanduser\<close> is the platform's expansion of a leading \<open>~\<close>, \<open>None\<close> where
  pathlib cannot determine the home directory.
\<close>

datatype write_fault = WriteOk | OpenDenied | DiskFull nat

record fs =
  files :: "string \<rightharpoonup> string \<times> nat"
  dirs :: "string set"
  parent_dir :: bool
  mkdir_ok :: bool
  write_fault :: write_fault
  chmod_ok :: bool
  read_ok :: bool
  create_mode :: nat
  expanduser :: "string \<Rightarrow> string option"

definition path_exists :: "string \<Rightarrow> fs \<Rightarrow> bool" where
  "path_exists p f = (files f p \<noteq> None \<or> p \<in> dirs f)"

definition mkdir_parent :: "fs \<Rightarrow> exn option \<times> fs" where
  "mkdir_parent f =
     (if parent_dir f then (None, f)
      else if mkdir_ok f then (None, f\<lparr>parent_dir := True\<rparr>)
      else (Some (OSError, ''Permission denied''), f))"

definition write_file :: "string \<Rightarrow> string \<Rightarrow> fs \<Rightarrow> exn option \<times> fs" where
  "write_file path content f =
     (let mode = (case files f path of None \<Rightarrow> create_mode f | Some (old, m) \<Rightarrow> m) in
      if \<not> parent_dir f then (Some (OSError, ''No such file or directory''), f)
      else if path \<in> dirs f then (Some (OSError, ''Is a directory''), f)
      else case write_fault f of
          OpenDenied \<Rightarrow> (Some (OSError, ''Permission denied''), f)
        | DiskFull n \<Rightarrow>
            if length content \<le> n
            then (None, f\<lparr>files := (files f)(path \<mapsto> (content, mode))\<rparr>)
            else (Some (OSError, ''No space left on device''),
                  f\<lparr>files := (files f)(path \<mapsto> (take n content, mode))\<rparr>)
        | WriteOk \<Rightarrow> (None, f\<lparr>files := (files f)(path \<mapsto> (content, mode))\<rparr>))"

definition chmod :: "string \<Rightarrow> nat \<Rightarrow> fs \<Rightarrow> exn option \<times> fs" where
  "chmod path m f =
     (case files f path of
        None \<Rightarrow>
          if path \<in> dirs f then
            (if chmod_ok f then (None, f) else (Some (OSError, ''Operation not permitted''), f))
          else (Some (OSError, ''No such file or directory''), f)
      | Some (content, old) \<Rightarrow>
          if chmod_ok f then (None, f\<lparr>files := (files f)(path \<mapsto> (content, m))\<rparr>)
          else (Some (OSError, ''Operation not permitted''), f))"

definition read_file :: "string \<Rightarrow> fs \<Rightarrow> exn + string" where
  "read_file path f =
     (case files f path of
        None \<Rightarrow>
          if path \<in> dirs f then Inl (OSError, ''Is a directory'')
          else Inl (OSError, ''No such file or directory'')
      | Some (content, m) \<Rightarrow>
          if read_ok f then Inr content else Inl (OSError, ''Permission denied''))"

section \<open>Data exchanged with the remote library\<close>

text \<open>
  The JSON-shaped values of the feed (Python dicts, lists, strings, numbers, \<open>None\<close>),
  and the user object whose attributes the client reads.
\<close>

datatype json =
    JNull | JBool bool | JInt int | JStr string | JList "json list" | JObj "(string \<times> json) list"

record user =
  username :: string
  full_name :: string
  biography :: string
  follower_count :: int
  following_count :: int
  media_count :: int
  is_private :: bool
  is_verified :: bool
  external_url :: json
  profile_pic_url :: string

section \<open>The remote library\<close>

text \<open>
  The instagrapi \<open>Client\<close> is an external collaborator: its methods are parameters.
  A client object holds a state of type \<open>'p\<close> (its settings, the session payload);
  the remote service and everything else the library keeps is a state of type \<open>'r\<close>.
  A method takes both and returns its outcome with both, changed or not, also when it
  raises. A user identifier is an option, \<open>None\<close> being Python's \<open>None\<close>.
  \<open>client_loads\<close> and \<open>client_dumps\<close> are the (de)serialisation behind
  \<open>load_settings\<close> and \<open>dump_settings\<close>; \<open>new_client\<close> is the state of \<open>Client()\<close>.
\<close>

type_synonym ('p, 'r, 'a) meth = "'p \<Rightarrow> 'r \<Rightarrow> (exn + 'a) \<times> 'p \<times> 'r"

record ('p, 'r) lib =
  new_client :: 'p
  client_loads :: "string \<Rightarrow> 'p option"
  client_dumps :: "'p \<Rightarrow> string"
  client_user_id :: "'p \<Rightarrow> string option"
  client_login :: "string \<Rightarrow> string \<Rightarrow> ('p, 'r, bool) meth"
  client_account_info :: "('p, 'r, unit) meth"
  client_get_timeline_feed :: "('p, 'r, json) meth"
  client_user_id_from_username :: "string \<Rightarrow> ('p, 'r, string) meth"
  client_user_info :: "string option \<Rightarrow> ('p, 'r, user) meth"
  client_photo_upload :: "string \<Rightarrow> string \<Rightarrow> ('p, 'r, string option) meth"

section \<open>Program state\<close>

record ('p, 'r) state =
  fsys :: fs
  session_file :: string
  remote :: 'r
  cached :: "'p option"
  sm_client :: "'p option"
  trace :: "event list"
  rich_error :: "string \<Rightarrow> string \<Rightarrow> string option"

text \<open>
  \<open>cached\<close> is \<open>InstaClient._client\<close>, \<open>sm_client\<close> is \<open>SessionManager.client\<close>,
  \<open>session_file\<close> the path \<open>SessionManager.session_file\<close>.

  The message functions of utils.py print \<open>[colour]... {message}[/colour]\<close> through
  the rich console with markup on. The markup parser of rich is external:
  \<open>rich_error colour message\<close> is the text of the \<open>MarkupError\<close> it raises for that
  line, \<open>None\<close> when it prints. It is consulted only for a message that contains an
  opening bracket: without one, the only tags of the line are the two that utils.py
  writes, which match, so the line prints. A line that raises prints nothing.
\<close>

definition emit :: "event \<Rightarrow> ('p, 'r) state \<Rightarrow> ('p, 'r) state" where
  "emit ev s = s\<lparr>trace := trace s @ [ev]\<rparr>"

definition markup_failure :: "('p, 'r) state \<Rightarrow> string \<Rightarrow> string \<Rightarrow> exn option" where
  "markup_failure s colour m =
     (if CHR ''['' \<in> set m
      then (case rich_error s colour m of None \<Rightarrow> None | Some t \<Rightarrow> Some (MarkupError, t))
      else None)"

definition console_print ::
  "string \<Rightarrow> (string \<Rightarrow> event) \<Rightarrow> string \<Rightarrow> ('p, 'r) state \<Rightarrow> (exn + unit) \<times> ('p, 'r) state" where
  "console_print colour ev m s =
     (case markup_failure s colour m of
        Some e \<Rightarrow> (Inl e, s)
      | None \<Rightarrow> (Inr (), emit (ev m) s))"

definition info_message :: "string \<Rightarrow> ('p, 'r) state \<Rightarrow> (exn + unit) \<times> ('p, 'r) state" where
  "info_message m = console_print ''blue'' InfoMsg m"

definition error_message :: "string \<Rightarrow> ('p, 'r) state \<Rightarrow> (exn + unit) \<times> ('p, 'r) state" where
  "error_message m = console_print ''red'' ErrorMsg m"

definition success_message :: "string \<Rightarrow> ('p, 'r) state \<Rightarrow> (exn + unit) \<times> ('p, 'r) state" where
  "success_message m = console_print ''green'' SuccessMsg m"

definition sleep :: "nat \<Rightarrow> ('p, 'r) state \<Rightarrow> ('p, 'r) state" where
  "sleep d = emit (Sleep d)"

text \<open>Decimal rendering of a number inside an f-string.\<close>

definition digit_char :: "nat \<Rightarrow> char" where
  "digit_char d = ''0123456789'' ! d"

fun show_nat :: "nat \<Rightarrow> string" where
  "show_nat n = (if n < 10 then [digit_char n] else show_nat (n div 10) @ [digit_char (n mod 10)])"

declare show_nat.simps [simp del]

section \<open>Sequencing, exceptions and calls\<close>

text \<open>
  A statement is a function from the state to an outcome (\<open>Inl\<close> a raised exception,
  \<open>Inr\<close> a value) and the state after it. \<open>then_do\<close> runs the next statement unless
  the first raised; \<open>try_except\<close> is \<open>try: ... except Exception as e: ...\<close>.
\<close>

definition then_do ::
  "('s \<Rightarrow> (exn + 'a) \<times> 's) \<Rightarrow> ('a \<Rightarrow> 's \<Rightarrow> (exn + 'b) \<times> 's) \<Rightarrow> 's \<Rightarrow> (exn + 'b) \<times> 's" where
  "then_do m k s = (case m s of (Inl e, s1) \<Rightarrow> (Inl e, s1) | (Inr v, s1) \<Rightarrow> k v s1)"

definition try_except ::
  "('s \<Rightarrow> (exn + 'a) \<times> 's) \<Rightarrow> (exn \<Rightarrow> 's \<Rightarrow> (exn + 'a) \<times> 's) \<Rightarrow> 's \<Rightarrow> (exn + 'a) \<times> 's" where
  "try_except m h s = (case m s of (Inl e, s1) \<Rightarrow> h e s1 | (Inr v, s1) \<Rightarrow> (Inr v, s1))"

text \<open>
  The body of a handler \<open>error_message(text); raise\<close>: the caught exception is raised
  again unless printing raises first.
\<close>

definition report_and_raise :: "string \<Rightarrow> exn \<Rightarrow> ('p, 'r) state \<Rightarrow> (exn + 'a) \<times> ('p, 'r) state" where
  "report_and_raise msg e = then_do (error_message msg) (\<lambda>u s. (Inl e, s))"

text \<open>
  A call of a remote method on a client object held in a local variable: the call is
  recorded, the remote state replaced, and the client's new state returned with the
  outcome.
\<close>

definition call ::
  "string \<Rightarrow> ('p, 'r, 'a) meth \<Rightarrow> 'p \<Rightarrow> ('p, 'r) state \<Rightarrow> ((exn + 'a) \<times> 'p) \<times> ('p, 'r) state" where
  "call name m c s =
     (case m c (remote s) of (res, c1, r1) \<Rightarrow> ((res, c1), emit (Call name) (s\<lparr>remote := r1\<rparr>)))"

section \<open>auth.py: SessionManager\<close>

text \<open>
  \<open>client.load_settings(self.session_file)\<close>, always called on a client just
  created: the content of the file, deserialised, becomes the client's state. Nothing
  changes when the file cannot be read or its content cannot be deserialised.
  \<open>dump_settings\<close> writes the serialised state of the client to the path.
\<close>

definition load_settings :: "('p, 'r) lib \<Rightarrow> ('p, 'r) state \<Rightarrow> exn + 'p" where
  "load_settings L s =
     (case read_file (session_file s) (fsys s) of
        Inl e \<Rightarrow> Inl e
      | Inr content \<Rightarrow>
          (case client_loads L content of
             None \<Rightarrow> Inl (ValueError, ''Expecting value'')
           | Some p \<Rightarrow> Inr p))"

definition dump_settings :: "('p, 'r) lib \<Rightarrow> 'p \<Rightarrow> string \<Rightarrow> fs \<Rightarrow> exn option \<times> fs" where
  "dump_settings L client path f = write_file path (client_dumps L client) f"

definition session_exists :: "('p, 'r) state \<Rightarrow> bool" where
  "session_exists s = path_exists (session_file s) (fsys s)"

definition is_authenticated :: "('p, 'r) lib \<Rightarrow> ('p, 'r) state \<Rightarrow> bool \<times> ('p, 'r) state" where
  "is_authenticated L s =
     (if \<not> session_exists s then (False, s)
      else case load_settings L s of
          Inl e \<Rightarrow> (False, s)
        | Inr client \<Rightarrow>
            (case call ''account_info'' (client_account_info L) client s of
               ((Inl e, c1), s1) \<Rightarrow> (False, s1)
             | ((Inr u, c1), s1) \<Rightarrow> (True, s1)))"

definition owner_rw :: nat where
  "owner_rw = 6 * 8 * 8"

definition save_failed_text :: "exn \<Rightarrow> string" where
  "save_failed_text e = ''Failed to save session: '' @ snd e"

text \<open>
  A file-system operation as a statement: the attempt is recorded and its exception,
  if any, is raised.
\<close>

definition fs_step ::
  "string \<Rightarrow> (fs \<Rightarrow> exn option \<times> fs) \<Rightarrow> ('p, 'r) state \<Rightarrow> (exn + unit) \<times> ('p, 'r) state" where
  "fs_step name operation s =
     (case operation (fsys s) of
        (None, f1) \<Rightarrow> (Inr (), emit (FileOp name) (s\<lparr>fsys := f1\<rparr>))
      | (Some e, f1) \<Rightarrow> (Inl e, emit (FileOp name) (s\<lparr>fsys := f1\<rparr>)))"

definition save_session ::
  "('p, 'r) lib \<Rightarrow> 'p \<Rightarrow> ('p, 'r) state \<Rightarrow> (exn + unit) \<times> ('p, 'r) state" where
  "save_session L client =
     try_except
       (then_do (fs_step ''mkdir'' mkdir_parent) (\<lambda>u1.
        then_do (\<lambda>s. fs_step ''write'' (dump_settings L client (session_file s)) s) (\<lambda>u2.
        then_do (\<lambda>s. fs_step ''chmod'' (chmod (session_file s) owner_rw) s) (\<lambda>u3 s.
          info_message (''Session saved to '' @ session_file s) s))))
       (\<lambda>e. error_message (save_failed_text e))"

definition login_error_text :: "exn \<Rightarrow> string" where
  "login_error_text e =
     (if fst e = BadPassword then ''Invalid password. Please check your credentials.''
      else if fst e = TwoFactorRequired then
        ''Two-factor authentication is required. Please disable 2FA or use app-specific password.''
      else if fst e = ChallengeRequired then
        ''Instagram requires additional verification. Please verify your account through the app first.''
      else ''Login failed: '' @ snd e)"

text \<open>
  The second half of \<open>login\<close> (from the comment \<open># Create new session\<close>), on the
  client object that the first half leaves in the local variable \<open>client\<close>.
\<close>

definition login_new_session ::
  "('p, 'r) lib \<Rightarrow> string \<Rightarrow> string \<Rightarrow> 'p \<Rightarrow> ('p, 'r) state \<Rightarrow> (exn + 'p) \<times> ('p, 'r) state" where
  "login_new_session L uname password client =
     try_except
       (then_do (info_message ''Logging in to Instagram...'') (\<lambda>u0 s0.
          case call ''login'' (client_login L uname password) client s0 of
            ((Inl e, c1), s1) \<Rightarrow> (Inl e, s1)
          | ((Inr b, c1), s1) \<Rightarrow>
              then_do (save_session L c1) (\<lambda>u1.
              then_do (success_message (''Successfully logged in as @'' @ uname)) (\<lambda>u2 s2.
                (Inr c1, s2\<lparr>sm_client := Some c1\<rparr>))) s1))
       (\<lambda>e. report_and_raise (login_error_text e) e)"

definition session_invalid_text :: string where
  "session_invalid_text = ''Existing session invalid, creating new one...''"

text \<open>
  The handler of the first \<open>try\<close> of \<open>login\<close>, followed by the second half, on the
  client as the failed attempt left it.
\<close>

definition login_fallback ::
  "('p, 'r) lib \<Rightarrow> string \<Rightarrow> string \<Rightarrow> 'p \<Rightarrow> ('p, 'r) state \<Rightarrow> (exn + 'p) \<times> ('p, 'r) state" where
  "login_fallback L uname password client =
     then_do (info_message session_invalid_text) (\<lambda>u. login_new_session L uname password client)"

definition login ::
  "('p, 'r) lib \<Rightarrow> string \<Rightarrow> string \<Rightarrow> ('p, 'r) state \<Rightarrow> (exn + 'p) \<times> ('p, 'r) state" where
  "login L uname password s =
     (let client = new_client L in
      if session_exists s then
        (case load_settings L s of
           Inl e \<Rightarrow> login_fallback L uname password client s
         | Inr c0 \<Rightarrow>
             (case info_message ''Found existing session, attempting to reuse...'' s of
                (Inl e, s0) \<Rightarrow> login_fallback L uname password c0 s0
              | (Inr u0, s0) \<Rightarrow>
                  (case call ''login'' (client_login L uname password) c0 s0 of
                     ((Inl e, c1), s1) \<Rightarrow> login_fallback L uname password c1 s1
                   | ((Inr b, c1), s1) \<Rightarrow>
                       (case success_message
                               (''Logged in as @'' @ uname @ '' using existing session'') s1 of
                          (Inl e, s2) \<Rightarrow> login_fallback L uname password c1 s2
                        | (Inr u1, s2) \<Rightarrow> (Inr c1, s2\<lparr>sm_client := Some c1\<rparr>)))))
      else login_new_session L uname password client s)"

definition not_authenticated_text :: string where
  "not_authenticated_text = ''Not authenticated. Please login first.''"

definition session_expired_text :: string where
  "session_expired_text = ''Session expired. Please login again.''"

definition get_client :: "('p, 'r) lib \<Rightarrow> ('p, 'r) state \<Rightarrow> (exn + 'p) \<times> ('p, 'r) state" where
  "get_client L s =
     (case is_authenticated L s of
        (False, s1) \<Rightarrow> (Inl (LoginRequired, not_authenticated_text), s1)
      | (True, s1) \<Rightarrow>
          (case load_settings L s1 of
             Inl e \<Rightarrow> (Inl e, s1)
           | Inr c0 \<Rightarrow>
               (case call ''get_timeline_feed'' (client_get_timeline_feed L) c0 s1 of
                  ((Inl e, c1), s2) \<Rightarrow>
                    if fst e = LoginRequired then report_and_raise session_expired_text e s2
                    else (Inl e, s2)
                | ((Inr feed, c1), s2) \<Rightarrow> (Inr c1, s2))))"

section \<open>client.py: the retry wrapper\<close>

text \<open>
  \<open>InstaClient._retry_on_rate_limit\<close>. The loop \<open>for attempt in range(max_retries)\<close>
  is a recursion over the attempt numbers still to run; \<open>retry_delay\<close> is the loop's
  mutable local. A loop that runs out of attempt numbers falls off the end of the
  function, which in Python returns \<open>None\<close>: the result is an option. An exception
  raised while the handler prints leaves the function.
\<close>

definition max_retries :: nat where
  "max_retries = 3"

definition initial_retry_delay :: nat where
  "initial_retry_delay = 5"

definition wait_text :: "nat \<Rightarrow> string" where
  "wait_text d = ''Rate limited. Waiting '' @ show_nat d @ '' seconds before retry...''"

definition exceeded_text :: string where
  "exceeded_text = ''Rate limit exceeded. Please try again later.''"

primrec retry_loop ::
  "nat list \<Rightarrow> nat \<Rightarrow> (('p, 'r) state \<Rightarrow> (exn + 'a) \<times> ('p, 'r) state) \<Rightarrow> ('p, 'r) state
     \<Rightarrow> (exn + 'a option) \<times> ('p, 'r) state" where
  "retry_loop [] retry_delay func s = (Inr None, s)"
| "retry_loop (attempt # rest) retry_delay func s =
     (case func s of
        (Inr v, s1) \<Rightarrow> (Inr (Some v), s1)
      | (Inl e, s1) \<Rightarrow>
          if fst e = RateLimitError then
            (if attempt < max_retries - 1
             then (case info_message (wait_text retry_delay) s1 of
                     (Inl e2, s2) \<Rightarrow> (Inl e2, s2)
                   | (Inr u, s2) \<Rightarrow>
                       retry_loop rest (retry_delay * 2) func (sleep retry_delay s2))
             else report_and_raise exceeded_text e s1)
          else (Inl e, s1))"

definition retry_on_rate_limit ::
  "(('p, 'r) state \<Rightarrow> (exn + 'a) \<times> ('p, 'r) state) \<Rightarrow> ('p, 'r) state
     \<Rightarrow> (exn + 'a option) \<times> ('p, 'r) state" where
  "retry_on_rate_limit func s = retry_loop [0..<max_retries] initial_retry_delay func s"


section \<open>client.py: the client property and bound methods\<close>

text \<open>
  \<open>InstaClient.client\<close>: the cached client, fetched from the session manager on first
  use. A method called through \<open>self.client\<close> acts on the cached object, so the
  object's new state is the cache's.
\<close>

definition client_prop :: "('p, 'r) lib \<Rightarrow> ('p, 'r) state \<Rightarrow> (exn + 'p) \<times> ('p, 'r) state" where
  "client_prop L s =
     (case cached s of
        Some c \<Rightarrow> (Inr c, s)
      | None \<Rightarrow>
          (case get_client L s of
             (Inl e, s1) \<Rightarrow> (Inl e, s1)
           | (Inr c, s1) \<Rightarrow> (Inr c, s1\<lparr>cached := Some c\<rparr>)))"

definition cached_call ::
  "string \<Rightarrow> ('p, 'r, 'a) meth \<Rightarrow> ('p, 'r) state \<Rightarrow> (exn + 'a) \<times> ('p, 'r) state" where
  "cached_call name m s =
     (case cached s of
        None \<Rightarrow> (Inl (AttributeError, ''NoneType object has no attribute '' @ name), s)
      | Some c \<Rightarrow>
          (case call name m c s of ((res, c1), s1) \<Rightarrow> (res, s1\<lparr>cached := Some c1\<rparr>)))"

text \<open>A value that the retry wrapper returned, used as an object: \<open>None\<close> has no attributes.\<close>

definition returned :: "'a option \<Rightarrow> 's \<Rightarrow> (exn + 'a) \<times> 's" where
  "returned r s =
     (case r of
        None \<Rightarrow> (Inl (AttributeError, ''NoneType object has no attribute''), s)
      | Some v \<Rightarrow> (Inr v, s))"

section \<open>client.py: account and profile\<close>

definition get_account_stats ::
  "('p, 'r) lib \<Rightarrow> ('p, 'r) state \<Rightarrow> (exn + (string \<times> int) list) \<times> ('p, 'r) state" where
  "get_account_stats L =
     try_except
       (then_do (client_prop L) (\<lambda>c.
        then_do (client_prop L) (\<lambda>c1.
        then_do (cached_call ''user_info'' (client_user_info L (client_user_id L c))) (\<lambda>user_info s.
          (Inr [(''followers'', follower_count user_info),
                (''following'', following_count user_info),
                (''posts'', media_count user_info)], s)))))
       (\<lambda>e.
          if fst e = LoginRequired then report_and_raise session_expired_text e
          else report_and_raise (''Failed to get account stats: '' @ snd e) e)"

definition lstrip_at :: "string \<Rightarrow> string" where
  "lstrip_at = dropWhile (\<lambda>c. c = CHR ''@'')"

definition get_user_info ::
  "('p, 'r) lib \<Rightarrow> string \<Rightarrow> ('p, 'r) state \<Rightarrow> (exn + (string \<times> json) list) \<times> ('p, 'r) state" where
  "get_user_info L uname0 =
     (let uname = lstrip_at uname0 in
      try_except
        (then_do (client_prop L) (\<lambda>c.
         then_do (retry_on_rate_limit
                    (cached_call ''user_id_from_username'' (client_user_id_from_username L uname))) (\<lambda>uid.
         then_do (client_prop L) (\<lambda>c1.
         then_do (retry_on_rate_limit (cached_call ''user_info'' (client_user_info L uid))) (\<lambda>r1.
         then_do (returned r1) (\<lambda>user_info s.
           (Inr [(''username'', JStr (username user_info)),
                 (''full_name'', JStr (full_name user_info)),
                 (''biography'', JStr (biography user_info)),
                 (''follower_count'', JInt (follower_count user_info)),
                 (''following_count'', JInt (following_count user_info)),
                 (''media_count'', JInt (media_count user_info)),
                 (''is_private'', JBool (is_private user_info)),
                 (''is_verified'', JBool (is_verified user_info)),
                 (''external_url'', external_url user_info),
                 (''profile_pic_url'', JStr (profile_pic_url user_info))], s)))))))
        (\<lambda>e. report_and_raise (''Failed to get user info for @'' @ uname @ '': '' @ snd e) e))"

text \<open>\<open>str(user_id)\<close>, the identifier being \<open>None\<close> when the client has none.\<close>

definition py_str :: "string option \<Rightarrow> string" where
  "py_str v = (case v of None \<Rightarrow> ''None'' | Some t \<Rightarrow> t)"

definition get_current_user ::
  "('p, 'r) lib \<Rightarrow> ('p, 'r) state \<Rightarrow> (exn + (string \<times> json) list) \<times> ('p, 'r) state" where
  "get_current_user L =
     try_except
       (then_do (client_prop L) (\<lambda>c.
        then_do (client_prop L) (\<lambda>c1.
        then_do (cached_call ''user_info'' (client_user_info L (client_user_id L c))) (\<lambda>user_info s.
          (Inr [(''username'', JStr (username user_info)),
                (''full_name'', JStr (full_name user_info)),
                (''biography'', JStr (biography user_info)),
                (''follower_count'', JInt (follower_count user_info)),
                (''following_count'', JInt (following_count user_info)),
                (''media_count'', JInt (media_count user_info)),
                (''is_private'', JBool (is_private user_info)),
                (''is_verified'', JBool (is_verified user_info)),
                (''user_id'', JStr (py_str (client_user_id L c)))], s)))))
       (\<lambda>e. report_and_raise (''Failed to get current user info: '' @ snd e) e)"

section \<open>client.py: the feed\<close>

text \<open>Python's \<open>xs[:limit]\<close>: a negative limit counts from the end.\<close>

definition slice_to :: "int \<Rightarrow> 'a list \<Rightarrow> 'a list" where
  "slice_to limit xs =
     (if 0 \<le> limit then take (nat limit) xs else take (length xs - nat (- limit)) xs)"

fun is_prefix :: "'a list \<Rightarrow> 'a list \<Rightarrow> bool" where
  "is_prefix [] ys = True"
| "is_prefix (x # xs) [] = False"
| "is_prefix (x # xs) (y # ys) = (x = y \<and> is_prefix xs ys)"

fun is_substring :: "'a list \<Rightarrow> 'a list \<Rightarrow> bool" where
  "is_substring sub [] = (sub = [])"
| "is_substring sub (c # cs) = (is_prefix sub (c # cs) \<or> is_substring sub cs)"

text \<open>\<open>key in media\<close>, by the type of \<open>media\<close>.\<close>

definition py_in :: "string \<Rightarrow> json \<Rightarrow> exn + bool" where
  "py_in key media =
     (case media of
        JObj d \<Rightarrow> Inr (map_of d key \<noteq> None)
      | JStr t \<Rightarrow> Inr (is_substring key t)
      | JList xs \<Rightarrow> Inr (JStr key \<in> set xs)
      | _ \<Rightarrow> Inl (TypeError, ''argument is not iterable''))"

text \<open>\<open>media[key]\<close> where \<open>key in media\<close> holds.\<close>

definition py_item :: "string \<Rightarrow> json \<Rightarrow> exn + json" where
  "py_item key media =
     (case media of
        JObj d \<Rightarrow> (case map_of d key of None \<Rightarrow> Inl (KeyError, key) | Some v \<Rightarrow> Inr v)
      | _ \<Rightarrow> Inl (TypeError, ''indices must be integers''))"

text \<open>\<open>obj.get(key, default)\<close>: only a dict has the method.\<close>

definition py_get :: "json \<Rightarrow> string \<Rightarrow> json \<Rightarrow> exn + json" where
  "py_get obj key dflt =
     (case obj of
        JObj d \<Rightarrow> Inr (case map_of d key of None \<Rightarrow> dflt | Some v \<Rightarrow> v)
      | _ \<Rightarrow> Inl (AttributeError, ''object has no attribute get''))"

text \<open>The next expression is evaluated unless the one before raised.\<close>

definition and_then :: "exn + 'a \<Rightarrow> ('a \<Rightarrow> exn + 'b) \<Rightarrow> exn + 'b" where
  "and_then r k = (case r of Inl e \<Rightarrow> Inl e | Inr v \<Rightarrow> k v)"

definition make_post :: "json \<Rightarrow> exn + json" where
  "make_post post =
     and_then (py_get post ''id'' JNull) (\<lambda>v_id.
     and_then (py_get post ''user'' (JObj [])) (\<lambda>u.
     and_then (py_get u ''username'' JNull) (\<lambda>v_username.
     and_then (py_get post ''user'' (JObj [])) (\<lambda>u1.
     and_then (py_get u1 ''full_name'' JNull) (\<lambda>v_full_name.
     and_then (py_get post ''caption'' JNull) (\<lambda>v_caption.
     and_then (py_get post ''like_count'' (JInt 0)) (\<lambda>v_like.
     and_then (py_get post ''comment_count'' (JInt 0)) (\<lambda>v_comment.
     and_then (py_get post ''media_type'' JNull) (\<lambda>v_type.
     and_then (py_get post ''taken_at'' JNull) (\<lambda>v_taken.
       Inr (JObj [(''id'', v_id),
                  (''user'', JObj [(''username'', v_username), (''full_name'', v_full_name)]),
                  (''caption'', v_caption),
                  (''like_count'', v_like),
                  (''comment_count'', v_comment),
                  (''media_type'', v_type),
                  (''taken_at'', v_taken)])))))))))))"

text \<open>The loop over the sliced items, \<open>posts\<close> being the list built so far.\<close>

fun collect_posts :: "json list \<Rightarrow> json list \<Rightarrow> exn + json list" where
  "collect_posts [] posts = Inr posts"
| "collect_posts (media # rest) posts =
     (case py_in ''media_or_ad'' media of
        Inl e \<Rightarrow> Inl e
      | Inr False \<Rightarrow> collect_posts rest posts
      | Inr True \<Rightarrow>
          (case py_item ''media_or_ad'' media of
             Inl e \<Rightarrow> Inl e
           | Inr post \<Rightarrow>
               (case make_post post of
                  Inl e \<Rightarrow> Inl e
                | Inr p \<Rightarrow> collect_posts rest (posts @ [p]))))"

text \<open>\<open>feed.get('feed_items', [])[:limit]\<close>, as the sequence the loop iterates over.\<close>

definition feed_items :: "int \<Rightarrow> json \<Rightarrow> exn + json list" where
  "feed_items limit feed =
     (case py_get feed ''feed_items'' (JList []) of
        Inl e \<Rightarrow> Inl e
      | Inr (JList xs) \<Rightarrow> Inr (slice_to limit xs)
      | Inr (JStr t) \<Rightarrow> Inr (map (\<lambda>c. JStr [c]) (slice_to limit t))
      | Inr other \<Rightarrow> Inl (TypeError, ''object is not subscriptable''))"

definition feed_posts :: "int \<Rightarrow> json \<Rightarrow> exn + json list" where
  "feed_posts limit feed =
     (case feed_items limit feed of Inl e \<Rightarrow> Inl e | Inr items \<Rightarrow> collect_posts items [])"

definition get_feed ::
  "('p, 'r) lib \<Rightarrow> int \<Rightarrow> ('p, 'r) state \<Rightarrow> (exn + json list) \<times> ('p, 'r) state" where
  "get_feed L limit =
     try_except
       (then_do (client_prop L) (\<lambda>c.
        then_do (retry_on_rate_limit
                   (cached_call ''get_timeline_feed'' (client_get_timeline_feed L))) (\<lambda>r.
        then_do (returned r) (\<lambda>feed s. (feed_posts limit feed, s)))))
       (\<lambda>e. report_and_raise (''Failed to get feed: '' @ snd e) e)"

section \<open>client.py: posting a photo\<close>

text \<open>
  \<open>PurePath.name\<close> and \<open>PurePath.suffix\<close> on a POSIX path: the name is the last
  component that is neither empty nor \<open>.\<close>; the suffix starts at the name's last dot
  unless that dot is the name's first or last character.
\<close>

fun split_slash :: "string \<Rightarrow> string list" where
  "split_slash [] = [[]]"
| "split_slash (c # cs) =
     (if c = CHR ''/'' then [] # split_slash cs
      else (case split_slash cs of [] \<Rightarrow> [[c]] | w # ws \<Rightarrow> (c # w) # ws))"

definition path_name :: "string \<Rightarrow> string" where
  "path_name p =
     (case filter (\<lambda>w. w \<noteq> [] \<and> w \<noteq> ''.'') (split_slash p) of
        [] \<Rightarrow> []
      | w # ws \<Rightarrow> last (w # ws))"

fun rfind :: "char \<Rightarrow> string \<Rightarrow> nat option" where
  "rfind c [] = None"
| "rfind c (x # xs) =
     (case rfind c xs of
        Some i \<Rightarrow> Some (Suc i)
      | None \<Rightarrow> if x = c then Some 0 else None)"

definition path_suffix :: "string \<Rightarrow> string" where
  "path_suffix p =
     (let name = path_name p in
      case rfind (CHR ''.'') name of
        None \<Rightarrow> []
      | Some i \<Rightarrow> if 0 < i \<and> i < length name - 1 then drop i name else [])"

text \<open>\<open>str.lower\<close> on the ASCII letters; no other character lowers to an ASCII one
  that occurs in the three accepted suffixes.\<close>

definition lower_char :: "char \<Rightarrow> char" where
  "lower_char c =
     (case map_of (zip ''ABCDEFGHIJKLMNOPQRSTUVWXYZ'' ''abcdefghijklmnopqrstuvwxyz'') c of
        None \<Rightarrow> c
      | Some l \<Rightarrow> l)"

definition lower :: "string \<Rightarrow> string" where
  "lower = map lower_char"

definition photo_suffixes :: "string list" where
  "photo_suffixes = [''.jpg'', ''.jpeg'', ''.png'']"

definition post_photo ::
  "('p, 'r) lib \<Rightarrow> string \<Rightarrow> string \<Rightarrow> ('p, 'r) state \<Rightarrow> (exn + bool) \<times> ('p, 'r) state" where
  "post_photo L photo_path caption =
     try_except
       (\<lambda>s.
          case expanduser (fsys s) photo_path of
            None \<Rightarrow> (Inl (RuntimeError, ''Could not determine home directory.''), s)
          | Some photo_file \<Rightarrow>
              if \<not> path_exists photo_file (fsys s) then
                then_do (error_message (''Photo file not found: '' @ photo_path))
                  (\<lambda>u s1. (Inr False, s1)) s
              else if lower (path_suffix photo_file) \<notin> set photo_suffixes then
                then_do (error_message ''Photo must be JPG, JPEG, or PNG format'')
                  (\<lambda>u s1. (Inr False, s1)) s
              else
                (then_do (info_message (''Uploading photo: '' @ path_name photo_file)) (\<lambda>u0.
                 then_do (client_prop L) (\<lambda>c.
                 then_do (retry_on_rate_limit
                            (cached_call ''photo_upload''
                               (client_photo_upload L photo_file caption))) (\<lambda>media.
                   case media of
                     Some (Some pk) \<Rightarrow>
                       then_do (success_message (''Photo posted successfully! Media ID: '' @ pk))
                         (\<lambda>u1 s1. (Inr True, s1))
                   | _ \<Rightarrow>
                       then_do (error_message ''Failed to post photo'')
                         (\<lambda>u1 s1. (Inr False, s1)))))) s)
       (\<lambda>e. report_and_raise (''Failed to post photo: '' @ snd e) e)"

section \<open>Test doubles\<close>

text \<open>
  Concrete libraries and states on which the theorems below are exercised. The client
  state is a string, the remote state counts the calls the service has received.
  \<open>flaky k v\<close> is a remote method that is rate limited for its first \<open>k\<close> calls and
  returns \<open>v\<close> from then on.
\<close>

definition flaky :: "nat \<Rightarrow> 'a \<Rightarrow> (string, nat, 'a) meth" where
  "flaky k v c r =
     (if r < k then (Inl (RateLimitError, ''Please wait a few minutes''), c, Suc r)
      else (Inr v, c, Suc r))"

definition fs0 :: fs where
  "fs0 = \<lparr>files = Map.empty, dirs = {}, parent_dir = True, mkdir_ok = True,
          write_fault = WriteOk, chmod_ok = True, read_ok = True, create_mode = 420,
          expanduser = Some\<rparr>"

text \<open>
  A markup parser that refuses every line whose message holds the closing tag
  \<open>[/b]\<close>; its error text names the tag, as that of rich does.
\<close>

definition rich0 :: "string \<Rightarrow> string \<Rightarrow> string option" where
  "rich0 colour m =
     (if is_substring ''[/b]'' m
      then Some ''closing tag [/b] does not match any open tag''
      else None)"

definition st0 :: "(string, nat) state" where
  "st0 = \<lparr>fsys = fs0, session_file = ''/home/u/.instagram_session.json'', remote = 0,
          cached = Some ''session'', sm_client = None, trace = [], rich_error = rich0\<rparr>"

definition user0 :: user where
  "user0 = \<lparr>username = ''ada'', full_name = ''Ada L'', biography = ''hello'',
            follower_count = 10, following_count = 20, media_count = 3,
            is_private = False, is_verified = True, external_url = JNull,
            profile_pic_url = ''https://example.org/ada.jpg''\<rparr>"

definition mock :: "(string, nat) lib" where
  "mock =
     \<lparr>new_client = '''',
      client_loads = (\<lambda>t. if t = ''{'' then None else Some t),
      client_dumps = (\<lambda>p. p),
      client_user_id = (\<lambda>p. if p = '''' then None else Some ''42''),
      client_login = (\<lambda>u pw c r.
         if pw \<noteq> ''secret'' then (Inl (BadPassword, ''bad_password''), c, Suc r)
         else if c = ''stale'' then (Inl (LoginRequired, ''login_required''), '''', Suc r)
         else (Inr True, ''session of '' @ u, Suc r)),
      client_account_info = (\<lambda>c r.
         if c = ''stale'' \<or> c = '''' then (Inl (LoginRequired, ''login_required''), c, Suc r)
         else (Inr (), c, Suc r)),
      client_get_timeline_feed = (\<lambda>c r.
         if c = ''expired'' then (Inl (LoginRequired, ''login_required''), c, Suc r)
         else (Inr (JObj []), c, Suc r)),
      client_user_id_from_username = (\<lambda>u c r. (Inr ''7'', c, Suc r)),
      client_user_info = (\<lambda>uid. flaky 2 user0),
      client_photo_upload = (\<lambda>path caption c r. (Inr (Some ''3141''), c, Suc r))\<rparr>"

text \<open>A library whose login leaves a rejected client as it was.\<close>

definition mock_sticky :: "(string, nat) lib" where
  "mock_sticky =
     mock\<lparr>client_login := (\<lambda>u pw c r.
        if c = ''stale'' then (Inl (LoginRequired, ''login_required''), c, Suc r)
        else (Inr True, ''session of '' @ u, Suc r))\<rparr>"

definition with_file :: "string \<Rightarrow> nat \<Rightarrow> (string, nat) state \<Rightarrow> (string, nat) state" where
  "with_file content mode s =
     s\<lparr>fsys := (fsys s)\<lparr>files := (files (fsys s))(session_file s \<mapsto> (content, mode))\<rparr>, cached := None\<rparr>"

definition disk_full :: "nat \<Rightarrow> (string, nat) state \<Rightarrow> (string, nat) state" where
  "disk_full n s = s\<lparr>fsys := (fsys s)\<lparr>write_fault := DiskFull n\<rparr>\<rparr>"

definition no_chmod :: "(string, nat) state \<Rightarrow> (string, nat) state" where
  "no_chmod s = s\<lparr>fsys := (fsys s)\<lparr>chmod_ok := False\<rparr>\<rparr>"

definition no_parent :: "bool \<Rightarrow> (string, nat) state \<Rightarrow> (string, nat) state" where
  "no_parent creatable s = s\<lparr>fsys := (fsys s)\<lparr>parent_dir := False, mkdir_ok := creatable\<rparr>\<rparr>"

definition read_only :: "(string, nat) state \<Rightarrow> (string, nat) state" where
  "read_only s = s\<lparr>fsys := (fsys s)\<lparr>write_fault := OpenDenied\<rparr>\<rparr>"

text \<open>The class of the exception an outcome raises, if it raises.\<close>

definition raised_class :: "exn + 'a \<Rightarrow> exn_class option" where
  "raised_class r = (case r of Inl e \<Rightarrow> Some (fst e) | Inr v \<Rightarrow> None)"

definition logged_out :: "(string, nat) state" where
  "logged_out = st0\<lparr>cached := None\<rparr>"

section \<open>Notions used in the statements about the feed\<close>

text \<open>
  An item counts as media when \<open>'media_or_ad' in item\<close> holds; \<open>entry_of\<close> is the
  entry the loop body builds from it. A well-formed item is a JSON object whose
  \<open>media_or_ad\<close> value, where present, is an object whose \<open>user\<close> value, where
  present, is an object.
\<close>

definition is_media :: "json \<Rightarrow> bool" where
  "is_media item = (py_in ''media_or_ad'' item = Inr True)"

definition entry_of :: "json \<Rightarrow> exn + json" where
  "entry_of item = and_then (py_item ''media_or_ad'' item) make_post"

definition well_formed_item :: "json \<Rightarrow> bool" where
  "well_formed_item item =
     (case item of
        JObj e \<Rightarrow>
          (case map_of e ''media_or_ad'' of
             None \<Rightarrow> True
           | Some (JObj p) \<Rightarrow>
               (case map_of p ''user'' of
                  None \<Rightarrow> True
                | Some (JObj u) \<Rightarrow> True
                | Some other \<Rightarrow> False)
           | Some other \<Rightarrow> False)
      | other \<Rightarrow> False)"

section \<open>Test doubles for the feed\<close>

definition media_item :: "string \<Rightarrow> json" where
  "media_item n =
     JObj [(''media_or_ad'',
            JObj [(''id'', JStr n),
                  (''user'', JObj [(''username'', JStr ''ada''), (''pk'', JInt 42)]),
                  (''like_count'', JInt 3),
                  (''media_type'', JInt 1)])]"

definition built_post :: "string \<Rightarrow> json" where
  "built_post n =
     JObj [(''id'', JStr n),
           (''user'', JObj [(''username'', JStr ''ada''), (''full_name'', JNull)]),
           (''caption'', JNull),
           (''like_count'', JInt 3),
           (''comment_count'', JInt 0),
           (''media_type'', JInt 1),
           (''taken_at'', JNull)]"

definition suggestion :: json where
  "suggestion = JObj [(''suggested_users'', JObj [(''type'', JInt 2)])]"

definition mock_feed :: "json list \<Rightarrow> (string, nat) lib" where
  "mock_feed items =
     mock\<lparr>client_get_timeline_feed := (\<lambda>c r.
        (Inr (JObj [(''num_results'', JInt 8), (''feed_items'', JList items)]), c, Suc r))\<rparr>"

definition page_a :: "json list" where
  "page_a = [suggestion, suggestion, media_item ''1'', media_item ''2'', media_item ''3'',
             media_item ''4'', media_item ''5'', media_item ''6'']"

definition page_b :: "json list" where
  "page_b = [media_item ''1'', suggestion, media_item ''2'', media_item ''3'', media_item ''4'',
             suggestion, media_item ''5'', media_item ''6'']"

section \<open>Test doubles for posting\<close>

definition pics :: "(string, nat) state" where
  "pics = st0\<lparr>fsys := fs0\<lparr>files := [''/pics/cat.gif'' \<mapsto> (''GIF89a'', 420),
                                      ''/pics/Cat.JPG'' \<mapsto> (''JFIF'', 420)]\<rparr>\<rparr>"

definition mock_upload :: "string \<Rightarrow> (string, nat) lib" where
  "mock_upload pk =
     mock\<lparr>client_photo_upload := (\<lambda>path caption c r. (Inr (Some pk), c, Suc r))\<rparr>"

text \<open>
  \<open>fails_after k e\<close> is a remote method that is rate limited for its first \<open>k\<close>
  calls and raises \<open>e\<close> from then on.
\<close>

definition fails_after :: "nat \<Rightarrow> exn \<Rightarrow> (string, nat, 'a) meth" where
  "fails_after k e c r =
     (if r < k then (Inl (RateLimitError, ''Please wait a few minutes''), c, Suc r)
      else (Inl e, c, Suc r))"



text \<open>The events that record a call of a remote method.\<close>

fun is_call :: "event \<Rightarrow> bool" where
  "is_call (Call name) = True"
| "is_call other = False"

section \<open>Basic facts\<close>

lemmas double_defs = st0_def fs0_def mock_def with_file_def read_only_def disk_full_def
  no_chmod_def no_parent_def

lemma markup_failure_plain: "CHR ''['' \<notin> set m \<Longrightarrow> markup_failure s colour m = None"
  by (simp add: markup_failure_def)

lemma info_message_prints:
  "markup_failure s ''blue'' m = None \<Longrightarrow>
   info_message m s = (Inr (), s\<lparr>trace := trace s @ [InfoMsg m]\<rparr>)"
  by (simp add: info_message_def console_print_def emit_def)

lemma error_message_prints:
  "markup_failure s ''red'' m = None \<Longrightarrow>
   error_message m s = (Inr (), s\<lparr>trace := trace s @ [ErrorMsg m]\<rparr>)"
  by (simp add: error_message_def console_print_def emit_def)

lemma success_message_prints:
  "markup_failure s ''green'' m = None \<Longrightarrow>
   success_message m s = (Inr (), s\<lparr>trace := trace s @ [SuccessMsg m]\<rparr>)"
  by (simp add: success_message_def console_print_def emit_def)

lemma info_message_raises:
  "markup_failure s ''blue'' m = Some e \<Longrightarrow> info_message m s = (Inl e, s)"
  by (simp add: info_message_def console_print_def)

lemma error_message_raises:
  "markup_failure s ''red'' m = Some e \<Longrightarrow> error_message m s = (Inl e, s)"
  by (simp add: error_message_def console_print_def)

lemma success_message_raises:
  "markup_failure s ''green'' m = Some e \<Longrightarrow> success_message m s = (Inl e, s)"
  by (simp add: success_message_def console_print_def)

lemma markup_failure_same_parser:
  "rich_error s1 = rich_error s \<Longrightarrow> markup_failure s1 colour m = markup_failure s colour m"
  by (simp add: markup_failure_def)

lemma report_and_raise_prints:
  "markup_failure s ''red'' m = None \<Longrightarrow>
   report_and_raise m e s = (Inl e, s\<lparr>trace := trace s @ [ErrorMsg m]\<rparr>)"
  by (simp add: report_and_raise_def then_do_def error_message_prints)

lemma report_and_raise_raises:
  "markup_failure s ''red'' m = Some e2 \<Longrightarrow> report_and_raise m e s = (Inl e2, s)"
  by (simp add: report_and_raise_def then_do_def error_message_raises)

lemma wait_text_5: "wait_text 5 = ''Rate limited. Waiting 5 seconds before retry...''"
  by (simp add: wait_text_def show_nat.simps digit_char_def)

lemma wait_text_10: "wait_text 10 = ''Rate limited. Waiting 10 seconds before retry...''"
  by (simp add: wait_text_def show_nat.simps digit_char_def)

lemma wait_5:
  "info_message (wait_text 5) s =
     (Inr (), s\<lparr>trace := trace s @ [InfoMsg ''Rate limited. Waiting 5 seconds before retry...'']\<rparr>)"
  unfolding wait_text_5 by (rule info_message_prints) (simp add: markup_failure_def)

lemma wait_10:
  "info_message (wait_text 10) s =
     (Inr (), s\<lparr>trace := trace s @ [InfoMsg ''Rate limited. Waiting 10 seconds before retry...'']\<rparr>)"
  unfolding wait_text_10 by (rule info_message_prints) (simp add: markup_failure_def)

lemma exceeded:
  "report_and_raise exceeded_text e s =
     (Inl e, s\<lparr>trace := trace s @ [ErrorMsg ''Rate limit exceeded. Please try again later.'']\<rparr>)"
  unfolding exceeded_text_def by (rule report_and_raise_prints) (simp add: markup_failure_def)

lemma upt_max_retries: "[0..<max_retries] = [0, 1, 2]"
  by (simp add: max_retries_def upt_rec)

lemma upt_3: "[0..<3] = [0, 1, 2]"
  by (simp add: upt_rec)

lemma cached_call_Some:
  "cached s = Some c \<Longrightarrow> m c (remote s) = (res, c1, r1) \<Longrightarrow>
   cached_call name m s =
     (res, s\<lparr>remote := r1, cached := Some c1, trace := trace s @ [Call name]\<rparr>)"
  by (simp add: cached_call_def call_def emit_def)

lemma retry_never_returns_None: "fst (retry_on_rate_limit func s) \<noteq> Inr None"
  by (simp add: retry_on_rate_limit_def upt_3 max_retries_def report_and_raise_def then_do_def
      split: prod.splits sum.splits)

lemma retry_first_try:
  "func s = (Inr v, s1) \<Longrightarrow> retry_on_rate_limit func s = (Inr (Some v), s1)"
  by (simp add: retry_on_rate_limit_def upt_max_retries)

declare retry_loop.simps(2) [simp del]

lemma retry_loop_returns:
  "func s = (Inr v, s1) \<Longrightarrow> retry_loop (attempt # rest) retry_delay func s = (Inr (Some v), s1)"
  by (simp add: retry_loop.simps)

text \<open>
  One turn of the loop, whatever the attempt number: an exception that is not a
  rate-limit error leaves the wrapper at once, in the state the call left.
\<close>

lemma retry_loop_other_error:
  "func s = (Inl (cls, e), s1) \<Longrightarrow> cls \<noteq> RateLimitError \<Longrightarrow>
   retry_loop (attempt # rest) retry_delay func s = (Inl (cls, e), s1)"
  by (simp add: retry_loop.simps)

section \<open>The retry wrapper\<close>

text \<open>
  The first two turns of the loop when the call is rate limited: the wrapper
  announces the wait, sleeps, and goes on with the doubled delay.
\<close>

lemma retry_loop_waits:
  "func s = (Inl (RateLimitError, e), s1) \<Longrightarrow> attempt < 2 \<Longrightarrow>
   info_message (wait_text d) s1 = (Inr (), s2) \<Longrightarrow>
   retry_loop (attempt # rest) d func s = retry_loop rest (d * 2) func (sleep d s2)"
  by (simp add: retry_loop.simps max_retries_def)

lemma retry_after_first:
  assumes "func s = (Inl (RateLimitError, e1), s1)"
  shows "retry_on_rate_limit func s =
     retry_loop [1, 2] 10 func
       (s1\<lparr>trace := trace s1 @
           [InfoMsg ''Rate limited. Waiting 5 seconds before retry...'', Sleep 5]\<rparr>)"
  unfolding retry_on_rate_limit_def upt_max_retries initial_retry_delay_def
  using retry_loop_waits [where func = func and s = s and attempt = 0 and rest = "[1, 2]"
      and d = 5, OF assms _ wait_5]
  by (simp add: sleep_def emit_def)

lemma retry_after_second:
  assumes "func s = (Inl (RateLimitError, e2), s2)"
  shows "retry_loop [1, 2] 10 func s =
     retry_loop [2] 20 func
       (s2\<lparr>trace := trace s2 @
           [InfoMsg ''Rate limited. Waiting 10 seconds before retry...'', Sleep 10]\<rparr>)"
  using retry_loop_waits [where func = func and s = s and attempt = 1 and rest = "[2]"
      and d = 10, OF assms _ wait_10]
  by (simp add: sleep_def emit_def)

lemma retry_last_rate_limited:
  assumes "func s = (Inl (RateLimitError, e3), s3)"
  shows "retry_loop [2] 20 func s =
     (Inl (RateLimitError, e3),
      s3\<lparr>trace := trace s3 @ [ErrorMsg ''Rate limit exceeded. Please try again later.'']\<rparr>)"
  using assms by (simp add: max_retries_def retry_loop.simps exceeded)

text \<open>
  C1. The wrapper runs with three attempts, a first delay of 5 and doubling. When the
  wrapped client method is rate limited on its first and second call and returns \<open>v\<close>
  on its third, the wrapper returns \<open>v\<close>; what it did, in order, is: call, announce
  and sleep 5, call, announce and sleep 10, call. So it made exactly three attempts
  and slept exactly twice, 5 then 10, and nothing follows the third call.
\<close>

theorem retry_success_on_third_attempt:
  assumes c: "cached s = Some c0"
    and a1: "m c0 (remote s) = (Inl (RateLimitError, e1), c1, r1)"
    and a2: "m c1 r1 = (Inl (RateLimitError, e2), c2, r2)"
    and a3: "m c2 r2 = (Inr v, c3, r3)"
  shows "retry_on_rate_limit (cached_call name m) s =
      (Inr (Some v),
       s\<lparr>remote := r3, cached := Some c3,
         trace := trace s @
           [Call name, InfoMsg ''Rate limited. Waiting 5 seconds before retry...'', Sleep 5,
            Call name, InfoMsg ''Rate limited. Waiting 10 seconds before retry...'', Sleep 10,
            Call name]\<rparr>)"
proof -
  let ?f = "cached_call name m"
  define s1 where "s1 = s\<lparr>remote := r1, cached := Some c1, trace := trace s @ [Call name]\<rparr>"
  define w1 where "w1 = s1\<lparr>trace := trace s1 @
           [InfoMsg ''Rate limited. Waiting 5 seconds before retry...'', Sleep 5]\<rparr>"
  define s2 where "s2 = w1\<lparr>remote := r2, cached := Some c2, trace := trace w1 @ [Call name]\<rparr>"
  define w2 where "w2 = s2\<lparr>trace := trace s2 @
           [InfoMsg ''Rate limited. Waiting 10 seconds before retry...'', Sleep 10]\<rparr>"
  define s3 where "s3 = w2\<lparr>remote := r3, cached := Some c3, trace := trace w2 @ [Call name]\<rparr>"
  have f1: "?f s = (Inl (RateLimitError, e1), s1)"
    unfolding s1_def using c a1 by (rule cached_call_Some)
  have "cached w1 = Some c1" and "remote w1 = r1"
    by (simp_all add: w1_def s1_def)
  then have f2: "?f w1 = (Inl (RateLimitError, e2), s2)"
    unfolding s2_def using a2 by (simp add: cached_call_Some)
  have "cached w2 = Some c2" and "remote w2 = r2"
    by (simp_all add: w2_def s2_def)
  then have f3: "?f w2 = (Inr v, s3)"
    unfolding s3_def using a3 by (simp add: cached_call_Some)
  have "retry_on_rate_limit ?f s = retry_loop [1, 2] 10 ?f w1"
    unfolding w1_def using f1 by (rule retry_after_first)
  also have "\<dots> = retry_loop [2] 20 ?f w2"
    unfolding w2_def using f2 by (rule retry_after_second)
  also have "\<dots> = (Inr (Some v), s3)"
    using f3 by (rule retry_loop_returns)
  finally show ?thesis
    by (simp add: s3_def w2_def s2_def w1_def s1_def)
qed

theorem retry_success_on_third_attempt_witness:
  "cached st0 = Some ''session''
   \<and> flaky 2 (7::int) ''session'' (remote st0) =
        (Inl (RateLimitError, ''Please wait a few minutes''), ''session'', 1)
   \<and> flaky 2 (7::int) ''session'' 1 =
        (Inl (RateLimitError, ''Please wait a few minutes''), ''session'', 2)
   \<and> flaky 2 (7::int) ''session'' 2 = (Inr 7, ''session'', 3)
   \<and> retry_on_rate_limit (cached_call ''search_users'' (flaky 2 (7::int))) st0 =
      (Inr (Some 7),
       st0\<lparr>remote := 3, cached := Some ''session'',
         trace :=
           [Call ''search_users'',
            InfoMsg ''Rate limited. Waiting 5 seconds before retry...'', Sleep 5,
            Call ''search_users'',
            InfoMsg ''Rate limited. Waiting 10 seconds before retry...'', Sleep 10,
            Call ''search_users'']\<rparr>)"
  using retry_success_on_third_attempt
    [of st0 "''session''" "flaky 2 (7::int)" _ "''session''" 1 _ "''session''" 2 7
        "''session''" 3 "''search_users''"]
  by (simp add: flaky_def st0_def)

text \<open>
  C2, as the code has it. When the wrapped client method is rate limited on each of
  its three calls, the wrapper reports \<open>Rate limit exceeded. Please try again later.\<close>
  and raises again the \<open>RateLimitError\<close> of the third call: it has called three
  times, slept 5 and 10 between the calls, and after the third call it neither sleeps
  nor calls again. When a call raises an exception of any other class, be it the
  first, the second or the third call, the wrapper raises that exception right after
  this call, with no further call, sleep or message.
\<close>

theorem retry_exhausted_or_other_error:
  assumes c: "cached s = Some c0"
  shows "(m c0 (remote s) = (Inl (RateLimitError, e1), c1, r1)
          \<and> m c1 r1 = (Inl (RateLimitError, e2), c2, r2)
          \<and> m c2 r2 = (Inl (RateLimitError, e3), c3, r3)
          \<longrightarrow> retry_on_rate_limit (cached_call name m) s =
               (Inl (RateLimitError, e3),
                s\<lparr>remote := r3, cached := Some c3,
                  trace := trace s @
                    [Call name, InfoMsg ''Rate limited. Waiting 5 seconds before retry...'', Sleep 5,
                     Call name, InfoMsg ''Rate limited. Waiting 10 seconds before retry...'', Sleep 10,
                     Call name, ErrorMsg ''Rate limit exceeded. Please try again later.'']\<rparr>))
       \<and> (m c0 (remote s) = (Inl (cls, e), c1, r1) \<and> cls \<noteq> RateLimitError
          \<longrightarrow> retry_on_rate_limit (cached_call name m) s =
               (Inl (cls, e),
                s\<lparr>remote := r1, cached := Some c1, trace := trace s @ [Call name]\<rparr>))
       \<and> (m c0 (remote s) = (Inl (RateLimitError, e1), c1, r1)
          \<and> m c1 r1 = (Inl (cls, e), c2, r2) \<and> cls \<noteq> RateLimitError
          \<longrightarrow> retry_on_rate_limit (cached_call name m) s =
               (Inl (cls, e),
                s\<lparr>remote := r2, cached := Some c2,
                  trace := trace s @
                    [Call name, InfoMsg ''Rate limited. Waiting 5 seconds before retry...'', Sleep 5,
                     Call name]\<rparr>))
       \<and> (m c0 (remote s) = (Inl (RateLimitError, e1), c1, r1)
          \<and> m c1 r1 = (Inl (RateLimitError, e2), c2, r2)
          \<and> m c2 r2 = (Inl (cls, e), c3, r3) \<and> cls \<noteq> RateLimitError
          \<longrightarrow> retry_on_rate_limit (cached_call name m) s =
               (Inl (cls, e),
                s\<lparr>remote := r3, cached := Some c3,
                  trace := trace s @
                    [Call name, InfoMsg ''Rate limited. Waiting 5 seconds before retry...'', Sleep 5,
                     Call name, InfoMsg ''Rate limited. Waiting 10 seconds before retry...'', Sleep 10,
                     Call name]\<rparr>))"
proof -
  let ?f = "cached_call name m"
  define s1 where "s1 = s\<lparr>remote := r1, cached := Some c1, trace := trace s @ [Call name]\<rparr>"
  define w1 where "w1 = s1\<lparr>trace := trace s1 @
           [InfoMsg ''Rate limited. Waiting 5 seconds before retry...'', Sleep 5]\<rparr>"
  define s2 where "s2 = w1\<lparr>remote := r2, cached := Some c2, trace := trace w1 @ [Call name]\<rparr>"
  define w2 where "w2 = s2\<lparr>trace := trace s2 @
           [InfoMsg ''Rate limited. Waiting 10 seconds before retry...'', Sleep 10]\<rparr>"
  define s3 where "s3 = w2\<lparr>remote := r3, cached := Some c3, trace := trace w2 @ [Call name]\<rparr>"
  have w1: "cached w1 = Some c1" "remote w1 = r1"
    by (simp_all add: w1_def s1_def)
  have w2: "cached w2 = Some c2" "remote w2 = r2"
    by (simp_all add: w2_def s2_def)
  have first: "?f s = (res, s1)" if "m c0 (remote s) = (res, c1, r1)" for res
    unfolding s1_def using c that by (rule cached_call_Some)
  have second: "?f w1 = (res, s2)" if "m c1 r1 = (res, c2, r2)" for res
    unfolding s2_def using w1 that by (simp add: cached_call_Some)
  have third: "?f w2 = (res, s3)" if "m c2 r2 = (res, c3, r3)" for res
    unfolding s3_def using w2 that by (simp add: cached_call_Some)
  have step1: "retry_on_rate_limit ?f s = retry_loop [1, 2] 10 ?f w1"
    if "m c0 (remote s) = (Inl (RateLimitError, e1), c1, r1)"
    unfolding w1_def using first [OF that] by (rule retry_after_first)
  have step2: "retry_loop [1, 2] 10 ?f w1 = retry_loop [2] 20 ?f w2"
    if "m c1 r1 = (Inl (RateLimitError, e2), c2, r2)"
    unfolding w2_def using second [OF that] by (rule retry_after_second)
  have exhausted: "retry_on_rate_limit ?f s =
               (Inl (RateLimitError, e3),
                s\<lparr>remote := r3, cached := Some c3,
                  trace := trace s @
                    [Call name, InfoMsg ''Rate limited. Waiting 5 seconds before retry...'', Sleep 5,
                     Call name, InfoMsg ''Rate limited. Waiting 10 seconds before retry...'', Sleep 10,
                     Call name, ErrorMsg ''Rate limit exceeded. Please try again later.'']\<rparr>)"
    if a: "m c0 (remote s) = (Inl (RateLimitError, e1), c1, r1)
          \<and> m c1 r1 = (Inl (RateLimitError, e2), c2, r2)
          \<and> m c2 r2 = (Inl (RateLimitError, e3), c3, r3)"
  proof -
    have "retry_on_rate_limit ?f s = retry_loop [2] 20 ?f w2"
      using a step1 step2 by simp
    also have "\<dots> = (Inl (RateLimitError, e3),
        s3\<lparr>trace := trace s3 @ [ErrorMsg ''Rate limit exceeded. Please try again later.'']\<rparr>)"
      using a by (intro retry_last_rate_limited third) simp
    finally show ?thesis
      by (simp add: s3_def w2_def s2_def w1_def s1_def)
  qed
  have at_first: "retry_on_rate_limit ?f s =
               (Inl (cls, e),
                s\<lparr>remote := r1, cached := Some c1, trace := trace s @ [Call name]\<rparr>)"
    if b: "m c0 (remote s) = (Inl (cls, e), c1, r1) \<and> cls \<noteq> RateLimitError"
  proof -
    have "?f s = (Inl (cls, e), s1)" using b by (intro first) simp
    then have "retry_loop [0, 1, 2] 5 ?f s = (Inl (cls, e), s1)"
      using b by (intro retry_loop_other_error) simp_all
    then show ?thesis
      by (simp add: retry_on_rate_limit_def upt_max_retries initial_retry_delay_def s1_def)
  qed
  have at_second: "retry_on_rate_limit ?f s =
               (Inl (cls, e),
                s\<lparr>remote := r2, cached := Some c2,
                  trace := trace s @
                    [Call name, InfoMsg ''Rate limited. Waiting 5 seconds before retry...'', Sleep 5,
                     Call name]\<rparr>)"
    if b: "m c0 (remote s) = (Inl (RateLimitError, e1), c1, r1)
          \<and> m c1 r1 = (Inl (cls, e), c2, r2) \<and> cls \<noteq> RateLimitError"
  proof -
    have "retry_on_rate_limit ?f s = retry_loop [1, 2] 10 ?f w1"
      using b step1 by simp
    also have "\<dots> = (Inl (cls, e), s2)"
      using b by (intro retry_loop_other_error second) simp_all
    finally show ?thesis
      by (simp add: s2_def w1_def s1_def)
  qed
  have at_third: "retry_on_rate_limit ?f s =
               (Inl (cls, e),
                s\<lparr>remote := r3, cached := Some c3,
                  trace := trace s @
                    [Call name, InfoMsg ''Rate limited. Waiting 5 seconds before retry...'', Sleep 5,
                     Call name, InfoMsg ''Rate limited. Waiting 10 seconds before retry...'', Sleep 10,
                     Call name]\<rparr>)"
    if b: "m c0 (remote s) = (Inl (RateLimitError, e1), c1, r1)
          \<and> m c1 r1 = (Inl (RateLimitError, e2), c2, r2)
          \<and> m c2 r2 = (Inl (cls, e), c3, r3) \<and> cls \<noteq> RateLimitError"
  proof -
    have "retry_on_rate_limit ?f s = retry_loop [2] 20 ?f w2"
      using b step1 step2 by simp
    also have "\<dots> = (Inl (cls, e), s3)"
      using b by (intro retry_loop_other_error third) simp_all
    finally show ?thesis
      by (simp add: s3_def w2_def s2_def w1_def s1_def)
  qed
  from exhausted at_first at_second at_third show ?thesis by blast
qed

text \<open>
  C2 as stated fails on the kind of the final error: after three rate-limited calls
  the wrapper raises the very exception the third call raised, of class
  \<open>RateLimitError\<close> like the transient signal; no other error kind marks the
  exhaustion.
\<close>

theorem retry_exhausted_same_class_counterexample:
  "flaky 3 (7::int) ''session'' 2 =
      (Inl (RateLimitError, ''Please wait a few minutes''), ''session'', 3)
   \<and> fst (retry_on_rate_limit (cached_call ''user_info'' (flaky 3 (7::int))) st0) =
      Inl (RateLimitError, ''Please wait a few minutes'')
   \<and> raised_class (fst (retry_on_rate_limit (cached_call ''user_info'' (flaky 3 (7::int))) st0)) =
      raised_class (fst (flaky 3 (7::int) ''session'' 2))"
  by (simp add: retry_on_rate_limit_def upt_3 initial_retry_delay_def max_retries_def
      retry_loop.simps wait_5 wait_10 exceeded sleep_def emit_def cached_call_def call_def
      flaky_def raised_class_def st0_def)

theorem retry_exhausted_or_other_error_witness:
  "cached st0 = Some ''session''
   \<and> flaky 3 (7::int) ''session'' (remote st0) =
        (Inl (RateLimitError, ''Please wait a few minutes''), ''session'', 1)
   \<and> flaky 3 (7::int) ''session'' 1 =
        (Inl (RateLimitError, ''Please wait a few minutes''), ''session'', 2)
   \<and> flaky 3 (7::int) ''session'' 2 =
        (Inl (RateLimitError, ''Please wait a few minutes''), ''session'', 3)
   \<and> flaky 3 (7::int) ''session'' 3 = (Inr 7, ''session'', 4)
   \<and> retry_on_rate_limit (cached_call ''user_info'' (flaky 3 (7::int))) st0 =
      (Inl (RateLimitError, ''Please wait a few minutes''),
       st0\<lparr>remote := 3, cached := Some ''session'',
         trace :=
           [Call ''user_info'',
            InfoMsg ''Rate limited. Waiting 5 seconds before retry...'', Sleep 5,
            Call ''user_info'',
            InfoMsg ''Rate limited. Waiting 10 seconds before retry...'', Sleep 10,
            Call ''user_info'', ErrorMsg ''Rate limit exceeded. Please try again later.'']\<rparr>)
   \<and> ClientError \<noteq> RateLimitError
   \<and> (fails_after 0 (ClientError, ''Not found'') :: (string, nat, int) meth) ''session'' (remote st0) =
        (Inl (ClientError, ''Not found''), ''session'', 1)
   \<and> retry_on_rate_limit
        (cached_call ''user_info'' (fails_after 0 (ClientError, ''Not found'') :: (string, nat, int) meth)) st0 =
      (Inl (ClientError, ''Not found''),
       st0\<lparr>remote := 1, cached := Some ''session'', trace := [Call ''user_info'']\<rparr>)
   \<and> (fails_after 1 (ClientError, ''Not found'') :: (string, nat, int) meth) ''session'' 1 =
        (Inl (ClientError, ''Not found''), ''session'', 2)
   \<and> retry_on_rate_limit
        (cached_call ''user_info'' (fails_after 1 (ClientError, ''Not found'') :: (string, nat, int) meth)) st0 =
      (Inl (ClientError, ''Not found''),
       st0\<lparr>remote := 2, cached := Some ''session'',
         trace :=
           [Call ''user_info'',
            InfoMsg ''Rate limited. Waiting 5 seconds before retry...'', Sleep 5,
            Call ''user_info'']\<rparr>)
   \<and> (fails_after 2 (ClientError, ''Not found'') :: (string, nat, int) meth) ''session'' 2 =
        (Inl (ClientError, ''Not found''), ''session'', 3)
   \<and> retry_on_rate_limit
        (cached_call ''user_info'' (fails_after 2 (ClientError, ''Not found'') :: (string, nat, int) meth)) st0 =
      (Inl (ClientError, ''Not found''),
       st0\<lparr>remote := 3, cached := Some ''session'',
         trace :=
           [Call ''user_info'',
            InfoMsg ''Rate limited. Waiting 5 seconds before retry...'', Sleep 5,
            Call ''user_info'',
            InfoMsg ''Rate limited. Waiting 10 seconds before retry...'', Sleep 10,
            Call ''user_info'']\<rparr>)"
  using retry_exhausted_or_other_error
    [of st0 "''session''" "flaky 3 (7::int)" _ "''session''" 1 _ "''session''" 2 _
        "''session''" 3 "''user_info''"]
    retry_exhausted_or_other_error
    [of st0 "''session''" "fails_after 0 (ClientError, ''Not found'') :: (string, nat, int) meth",
     where cls = ClientError and e = "''Not found''" and ?c1.0 = "''session''" and ?r1.0 = 1
       and name = "''user_info''"]
    retry_exhausted_or_other_error
    [of st0 "''session''" "fails_after 1 (ClientError, ''Not found'') :: (string, nat, int) meth",
     where cls = ClientError and e = "''Not found''" and ?c1.0 = "''session''" and ?r1.0 = 1
       and ?c2.0 = "''session''" and ?r2.0 = 2 and name = "''user_info''"]
    retry_exhausted_or_other_error
    [of st0 "''session''" "fails_after 2 (ClientError, ''Not found'') :: (string, nat, int) meth",
     where cls = ClientError and e = "''Not found''" and ?c1.0 = "''session''" and ?r1.0 = 1
       and ?c2.0 = "''session''" and ?r2.0 = 2 and ?c3.0 = "''session''" and ?r3.0 = 3
       and name = "''user_info''"]
  by (simp add: flaky_def fails_after_def st0_def)

section \<open>Session store and login\<close>

lemma markup_failure_updates [simp]:
  "markup_failure (s\<lparr>fsys := f\<rparr>) = markup_failure s"
  "markup_failure (s\<lparr>remote := r\<rparr>) = markup_failure s"
  "markup_failure (s\<lparr>cached := c\<rparr>) = markup_failure s"
  "markup_failure (s\<lparr>sm_client := c\<rparr>) = markup_failure s"
  "markup_failure (s\<lparr>trace := t\<rparr>) = markup_failure s"
  by (simp_all add: markup_failure_def fun_eq_iff)

lemmas save_steps = save_session_def try_except_def then_do_def fs_step_def emit_def

lemmas save_defs = save_steps info_message_def error_message_def console_print_def



lemmas fs_defs = mkdir_parent_def dump_settings_def write_file_def chmod_def read_file_def
  load_settings_def session_exists_def path_exists_def save_failed_text_def owner_rw_def



text \<open>
  The three steps of a save that succeed, and what is left to do: print that the
  session was saved.
\<close>

lemma parent_dir_kept: "parent_dir f \<Longrightarrow> f\<lparr>parent_dir := True\<rparr> = f"
  by (cases f) simp

lemma save_session_steps:
  assumes "session_file s \<notin> dirs (fsys s)"
    and "parent_dir (fsys s) \<or> mkdir_ok (fsys s)"
    and "write_fault (fsys s) = WriteOk
         \<or> (\<exists>n. write_fault (fsys s) = DiskFull n \<and> length (client_dumps L p) \<le> n)"
    and "chmod_ok (fsys s)"
  shows "save_session L p s =
      try_except (info_message (''Session saved to '' @ session_file s))
        (\<lambda>e. error_message (save_failed_text e))
        (s\<lparr>fsys := (fsys s)\<lparr>parent_dir := True,
                  files := (files (fsys s))(session_file s \<mapsto> (client_dumps L p, owner_rw))\<rparr>,
           trace := trace s @ [FileOp ''mkdir'', FileOp ''write'', FileOp ''chmod'']\<rparr>)"
  using assms
  by (auto simp add: save_steps mkdir_parent_def dump_settings_def write_file_def chmod_def
      Let_def parent_dir_kept split: option.splits)

lemma printing_keeps_files:
  "fsys (snd (try_except (info_message m) (\<lambda>e. error_message (k e)) s)) = fsys s"
  "session_file (snd (try_except (info_message m) (\<lambda>e. error_message (k e)) s)) = session_file s"
  by (simp_all add: try_except_def info_message_def error_message_def console_print_def emit_def
      split: prod.splits sum.splits option.splits)

text \<open>
  C8, as the code has it. For a payload that the library's serialisation reads back:
  when the session path is not a directory, the parent directory exists or can be
  created, the write and the permission change succeed and the file can be read, then
  after the save loading yields the payload, the session file holds its serialisation
  with mode \<open>0o600\<close> (384), and the parent directory exists. The save returns
  normally, after one attempt of each step, when its closing message prints.
\<close>

theorem save_then_load_roundtrip:
  assumes "client_loads L (client_dumps L p) = Some p"
    and "session_file s \<notin> dirs (fsys s)"
    and "parent_dir (fsys s) \<or> mkdir_ok (fsys s)"
    and "write_fault (fsys s) = WriteOk
         \<or> (\<exists>n. write_fault (fsys s) = DiskFull n \<and> length (client_dumps L p) \<le> n)"
    and "chmod_ok (fsys s)"
    and "read_ok (fsys s)"
  shows "load_settings L (snd (save_session L p s)) = Inr p
       \<and> files (fsys (snd (save_session L p s))) (session_file s) = Some (client_dumps L p, owner_rw)
       \<and> parent_dir (fsys (snd (save_session L p s)))
       \<and> owner_rw = 384
       \<and> (markup_failure s ''blue'' (''Session saved to '' @ session_file s) = None
            \<longrightarrow> save_session L p s =
                (Inr (),
                 s\<lparr>fsys := (fsys s)\<lparr>parent_dir := True,
                           files := (files (fsys s))
                             (session_file s \<mapsto> (client_dumps L p, owner_rw))\<rparr>,
                   trace := trace s @
                     [FileOp ''mkdir'', FileOp ''write'', FileOp ''chmod'',
                      InfoMsg (''Session saved to '' @ session_file s)]\<rparr>))"
proof -
  note steps = save_session_steps [OF assms(2,3,4,5)]
  have fs: "fsys (snd (save_session L p s)) =
      (fsys s)\<lparr>parent_dir := True,
                files := (files (fsys s))(session_file s \<mapsto> (client_dumps L p, owner_rw))\<rparr>"
    and path: "session_file (snd (save_session L p s)) = session_file s"
    by (simp_all add: steps printing_keeps_files)
  have "load_settings L (snd (save_session L p s)) = Inr p"
    using assms(1,6) by (simp add: load_settings_def read_file_def fs path)
  moreover have "markup_failure s ''blue'' (''Session saved to '' @ session_file s) = None
            \<longrightarrow> save_session L p s =
                (Inr (),
                 s\<lparr>fsys := (fsys s)\<lparr>parent_dir := True,
                           files := (files (fsys s))
                             (session_file s \<mapsto> (client_dumps L p, owner_rw))\<rparr>,
                   trace := trace s @
                     [FileOp ''mkdir'', FileOp ''write'', FileOp ''chmod'',
                      InfoMsg (''Session saved to '' @ session_file s)]\<rparr>)"
    by (simp add: steps try_except_def info_message_prints)
  ultimately show ?thesis
    by (simp add: fs owner_rw_def)
qed

text \<open>
  C8 as stated fails: with a session file that holds \<open>old\<close>, has mode \<open>0o444\<close>
  (292) and cannot be opened for writing, the save of \<open>new\<close> returns normally,
  loading afterwards yields \<open>old\<close>, and the file keeps its mode.
\<close>

theorem save_then_load_counterexample:
  "fst (save_session mock ''new'' (read_only (with_file ''old'' 292 st0))) = Inr ()
   \<and> load_settings mock (snd (save_session mock ''new'' (read_only (with_file ''old'' 292 st0))))
       = Inr ''old''
   \<and> files (fsys (snd (save_session mock ''new'' (read_only (with_file ''old'' 292 st0)))))
       (session_file st0) = Some (''old'', 292)"
  by (simp add: save_defs markup_failure_def fs_defs double_defs)

theorem save_then_load_roundtrip_witness:
  "client_loads mock (client_dumps mock ''new'') = Some ''new''
   \<and> session_file (no_parent True st0) \<notin> dirs (fsys (no_parent True st0))
   \<and> (parent_dir (fsys (no_parent True st0)) \<or> mkdir_ok (fsys (no_parent True st0)))
   \<and> write_fault (fsys (no_parent True st0)) = WriteOk
   \<and> chmod_ok (fsys (no_parent True st0))
   \<and> read_ok (fsys (no_parent True st0))
   \<and> \<not> parent_dir (fsys (no_parent True st0))
   \<and> markup_failure (no_parent True st0) ''blue''
        (''Session saved to '' @ session_file (no_parent True st0)) = None
   \<and> load_settings mock (snd (save_session mock ''new'' (no_parent True st0))) = Inr ''new''
   \<and> files (fsys (snd (save_session mock ''new'' (no_parent True st0)))) (session_file st0)
       = Some (''new'', 384)
   \<and> parent_dir (fsys (snd (save_session mock ''new'' (no_parent True st0))))
   \<and> fst (save_session mock ''new'' (no_parent True st0)) = Inr ()
   \<and> trace (snd (save_session mock ''new'' (no_parent True st0))) =
       [FileOp ''mkdir'', FileOp ''write'', FileOp ''chmod'',
        InfoMsg ''Session saved to /home/u/.instagram_session.json'']"
  using save_then_load_roundtrip [of mock "''new''" "no_parent True st0"]
  by (simp add: markup_failure_def fs_defs double_defs)




lemma fixed_info_messages:
  "info_message ''Found existing session, attempting to reuse...'' s =
     (Inr (), s\<lparr>trace := trace s @ [InfoMsg ''Found existing session, attempting to reuse...'']\<rparr>)"
  "info_message session_invalid_text s =
     (Inr (), s\<lparr>trace := trace s @ [InfoMsg ''Existing session invalid, creating new one...'']\<rparr>)"
  "info_message ''Logging in to Instagram...'' s =
     (Inr (), s\<lparr>trace := trace s @ [InfoMsg ''Logging in to Instagram...'']\<rparr>)"
  by (simp_all add: info_message_prints markup_failure_def session_invalid_text_def)

lemma report_and_raise_keeps_files: "fsys (snd (report_and_raise m e s)) = fsys s"
  by (simp add: report_and_raise_def then_do_def error_message_def console_print_def emit_def
      split: prod.splits sum.splits option.splits)

lemma login_new_session_ok:
  assumes "client_login L uname password c1 (remote s) = (Inr b, c2, r2)"
    and "session_file s \<notin> dirs (fsys s)"
    and "parent_dir (fsys s) \<or> mkdir_ok (fsys s)"
    and "write_fault (fsys s) = WriteOk
         \<or> (\<exists>n. write_fault (fsys s) = DiskFull n \<and> length (client_dumps L c2) \<le> n)"
    and "chmod_ok (fsys s)"
    and "markup_failure s ''blue'' (''Session saved to '' @ session_file s) = None"
    and "markup_failure s ''green'' (''Successfully logged in as @'' @ uname) = None"
  shows "login_new_session L uname password c1 s =
      (Inr c2,
       s\<lparr>fsys := (fsys s)\<lparr>parent_dir := True,
                 files := (files (fsys s))(session_file s \<mapsto> (client_dumps L c2, owner_rw))\<rparr>,
         remote := r2, sm_client := Some c2,
         trace := trace s @
           [InfoMsg ''Logging in to Instagram...'', Call ''login'',
            FileOp ''mkdir'', FileOp ''write'', FileOp ''chmod'',
            InfoMsg (''Session saved to '' @ session_file s),
            SuccessMsg (''Successfully logged in as @'' @ uname)]\<rparr>)"
proof -
  let ?s1 = "s\<lparr>remote := r2, trace := trace s @ [InfoMsg ''Logging in to Instagram...'', Call ''login'']\<rparr>"
  have sv: "save_session L c2 ?s1 =
      (Inr (),
       ?s1\<lparr>fsys := (fsys ?s1)\<lparr>parent_dir := True,
                 files := (files (fsys ?s1))(session_file ?s1 \<mapsto> (client_dumps L c2, owner_rw))\<rparr>,
         trace := trace ?s1 @
           [FileOp ''mkdir'', FileOp ''write'', FileOp ''chmod'',
            InfoMsg (''Session saved to '' @ session_file ?s1)]\<rparr>)"
    using assms(2-6)
    by (simp add: save_session_steps [where s = "?s1", simplified] try_except_def
        info_message_prints)
  show ?thesis
    using assms(1,7)
    by (simp add: login_new_session_def try_except_def then_do_def fixed_info_messages
        call_def emit_def sv success_message_prints)
qed

lemma login_new_session_raises:
  assumes "client_login L uname password c1 (remote s) = (Inl e2, c2, r2)"
  shows "fsys (snd (login_new_session L uname password c1 s)) = fsys s"
    and "markup_failure s ''red'' (login_error_text e2) = None \<Longrightarrow>
         login_new_session L uname password c1 s =
           (Inl e2,
            s\<lparr>remote := r2,
              trace := trace s @
                [InfoMsg ''Logging in to Instagram...'', Call ''login'',
                 ErrorMsg (login_error_text e2)]\<rparr>)"
proof -
  let ?s1 = "s\<lparr>remote := r2, trace := trace s @ [InfoMsg ''Logging in to Instagram...'', Call ''login'']\<rparr>"
  have run: "login_new_session L uname password c1 s = report_and_raise (login_error_text e2) e2 ?s1"
    using assms
    by (simp add: login_new_session_def try_except_def then_do_def fixed_info_messages
        call_def emit_def)
  show "fsys (snd (login_new_session L uname password c1 s)) = fsys s"
    by (simp add: run report_and_raise_keeps_files)
  show "login_new_session L uname password c1 s =
           (Inl e2,
            s\<lparr>remote := r2,
              trace := trace s @
                [InfoMsg ''Logging in to Instagram...'', Call ''login'',
                 ErrorMsg (login_error_text e2)]\<rparr>)"
    if "markup_failure s ''red'' (login_error_text e2) = None"
    using that by (simp add: run report_and_raise_prints)
qed

lemma login_falls_through:
  assumes "session_exists s"
    and "load_settings L s = Inr c0"
    and "client_login L uname password c0 (remote s) = (Inl e, c1, r1)"
  shows "login L uname password s =
     login_new_session L uname password c1
       (s\<lparr>remote := r1,
          trace := trace s @
            [InfoMsg ''Found existing session, attempting to reuse...'', Call ''login'',
             InfoMsg ''Existing session invalid, creating new one...'']\<rparr>)"
  using assms
  by (simp add: login_def login_fallback_def then_do_def fixed_info_messages call_def emit_def)

text \<open>
  C7, as the code has it. The session file exists and loads, and the login call on the
  client hydrated from it raises. Then \<open>login\<close> calls login a second time on the same
  client object, in the state \<open>c1\<close> the rejected call left it. When that call
  returns, the save's file-system steps succeed and the two closing messages (with
  the session path and the user name) print, \<open>login\<close> returns the client and the
  session file holds the serialisation of its state, with mode \<open>0o600\<close>. When that
  call raises, the file system is unchanged, so the stored file is touched by the save
  only and never deleted, and \<open>login\<close> raises the same exception provided its report
  prints.
\<close>

theorem login_fallback_after_rejected_session:
  assumes ex: "session_exists s"
    and ld: "load_settings L s = Inr c0"
    and rej: "client_login L uname password c0 (remote s) = (Inl e, c1, r1)"
  shows "(client_login L uname password c1 r1 = (Inr b, c2, r2)
          \<and> session_file s \<notin> dirs (fsys s)
          \<and> (parent_dir (fsys s) \<or> mkdir_ok (fsys s))
          \<and> (write_fault (fsys s) = WriteOk
               \<or> (\<exists>n. write_fault (fsys s) = DiskFull n \<and> length (client_dumps L c2) \<le> n))
          \<and> chmod_ok (fsys s)
          \<and> markup_failure s ''blue'' (''Session saved to '' @ session_file s) = None
          \<and> markup_failure s ''green'' (''Successfully logged in as @'' @ uname) = None
          \<longrightarrow> fst (login L uname password s) = Inr c2
              \<and> files (fsys (snd (login L uname password s))) (session_file s) =
                  Some (client_dumps L c2, owner_rw)
              \<and> trace (snd (login L uname password s)) = trace s @
                  [InfoMsg ''Found existing session, attempting to reuse...'', Call ''login'',
                   InfoMsg ''Existing session invalid, creating new one...'',
                   InfoMsg ''Logging in to Instagram...'', Call ''login'',
                   FileOp ''mkdir'', FileOp ''write'', FileOp ''chmod'',
                   InfoMsg (''Session saved to '' @ session_file s),
                   SuccessMsg (''Successfully logged in as @'' @ uname)])
       \<and> (client_login L uname password c1 r1 = (Inl e2, c2, r2)
          \<longrightarrow> fsys (snd (login L uname password s)) = fsys s
              \<and> (markup_failure s ''red'' (login_error_text e2) = None
                   \<longrightarrow> fst (login L uname password s) = Inl e2))"
proof (intro conjI impI)
  let ?s1 = "s\<lparr>remote := r1,
          trace := trace s @
            [InfoMsg ''Found existing session, attempting to reuse...'', Call ''login'',
             InfoMsg ''Existing session invalid, creating new one...'']\<rparr>"
  assume a: "client_login L uname password c1 r1 = (Inr b, c2, r2)
          \<and> session_file s \<notin> dirs (fsys s)
          \<and> (parent_dir (fsys s) \<or> mkdir_ok (fsys s))
          \<and> (write_fault (fsys s) = WriteOk
               \<or> (\<exists>n. write_fault (fsys s) = DiskFull n \<and> length (client_dumps L c2) \<le> n))
          \<and> chmod_ok (fsys s)
          \<and> markup_failure s ''blue'' (''Session saved to '' @ session_file s) = None
          \<and> markup_failure s ''green'' (''Successfully logged in as @'' @ uname) = None"
  have n: "login_new_session L uname password c1 ?s1 =
      (Inr c2,
       ?s1\<lparr>fsys := (fsys ?s1)\<lparr>parent_dir := True,
                 files := (files (fsys ?s1))(session_file ?s1 \<mapsto> (client_dumps L c2, owner_rw))\<rparr>,
         remote := r2, sm_client := Some c2,
         trace := trace ?s1 @
           [InfoMsg ''Logging in to Instagram...'', Call ''login'',
            FileOp ''mkdir'', FileOp ''write'', FileOp ''chmod'',
            InfoMsg (''Session saved to '' @ session_file ?s1),
            SuccessMsg (''Successfully logged in as @'' @ uname)]\<rparr>)"
    by (rule login_new_session_ok [where b = b]) (use a in simp_all)
  show "fst (login L uname password s) = Inr c2"
    by (simp add: login_falls_through [OF ex ld rej] n)
  show "files (fsys (snd (login L uname password s))) (session_file s) =
                  Some (client_dumps L c2, owner_rw)"
    by (simp add: login_falls_through [OF ex ld rej] n)
  show "trace (snd (login L uname password s)) = trace s @
                  [InfoMsg ''Found existing session, attempting to reuse...'', Call ''login'',
                   InfoMsg ''Existing session invalid, creating new one...'',
                   InfoMsg ''Logging in to Instagram...'', Call ''login'',
                   FileOp ''mkdir'', FileOp ''write'', FileOp ''chmod'',
                   InfoMsg (''Session saved to '' @ session_file s),
                   SuccessMsg (''Successfully logged in as @'' @ uname)]"
    by (simp add: login_falls_through [OF ex ld rej] n)
next
  let ?s1 = "s\<lparr>remote := r1,
          trace := trace s @
            [InfoMsg ''Found existing session, attempting to reuse...'', Call ''login'',
             InfoMsg ''Existing session invalid, creating new one...'']\<rparr>"
  assume b: "client_login L uname password c1 r1 = (Inl e2, c2, r2)"
  then have b1: "client_login L uname password c1 (remote ?s1) = (Inl e2, c2, r2)"
    by simp
  show "fsys (snd (login L uname password s)) = fsys s"
    by (simp add: login_falls_through [OF ex ld rej] login_new_session_raises(1) [OF b1])
  show "fst (login L uname password s) = Inl e2"
    if "markup_failure s ''red'' (login_error_text e2) = None"
    using that
    by (simp add: login_falls_through [OF ex ld rej] login_new_session_raises(2) [OF b1])
qed

text \<open>
  C7 as stated fails: the stored session is rejected, the credentials are valid (the
  second login call returns, and so would a login on a new client), \<open>login\<close>
  succeeds, and the session file, which cannot be opened for writing, still holds the
  rejected session.
\<close>

theorem login_fallback_counterexample:
  "session_exists (read_only (with_file ''stale'' 292 st0))
   \<and> load_settings mock (read_only (with_file ''stale'' 292 st0)) = Inr ''stale''
   \<and> client_login mock ''ada'' ''secret'' ''stale'' 0 =
        (Inl (LoginRequired, ''login_required''), [], 1)
   \<and> client_login mock ''ada'' ''secret'' (new_client mock) 1 = (Inr True, ''session of ada'', 2)
   \<and> fst (login mock ''ada'' ''secret'' (read_only (with_file ''stale'' 292 st0)))
       = Inr ''session of ada''
   \<and> files (fsys (snd (login mock ''ada'' ''secret'' (read_only (with_file ''stale'' 292 st0)))))
        (session_file st0) = Some (''stale'', 292)"
  by (simp add: login_def login_fallback_def login_new_session_def report_and_raise_def
      save_defs success_message_def call_def markup_failure_def
      login_error_text_def session_invalid_text_def fs_defs double_defs)

theorem login_fallback_after_rejected_session_witness:
  "session_exists (with_file ''stale'' 420 st0)
   \<and> load_settings mock (with_file ''stale'' 420 st0) = Inr ''stale''
   \<and> client_login mock ''ada'' ''secret'' ''stale'' (remote (with_file ''stale'' 420 st0))
       = (Inl (LoginRequired, ''login_required''), [], 1)
   \<and> client_login mock ''ada'' ''secret'' [] 1 = (Inr True, ''session of ada'', 2)
   \<and> session_file (with_file ''stale'' 420 st0) \<notin> dirs (fsys (with_file ''stale'' 420 st0))
   \<and> markup_failure (with_file ''stale'' 420 st0) ''blue''
        (''Session saved to '' @ session_file (with_file ''stale'' 420 st0)) = None
   \<and> markup_failure (with_file ''stale'' 420 st0) ''green''
        (''Successfully logged in as @'' @ ''ada'') = None
   \<and> fst (login mock ''ada'' ''secret'' (with_file ''stale'' 420 st0)) = Inr ''session of ada''
   \<and> files (fsys (snd (login mock ''ada'' ''secret'' (with_file ''stale'' 420 st0))))
        (session_file st0) = Some (''session of ada'', 384)
   \<and> client_login mock ''ada'' ''guess'' ''stale'' (remote (with_file ''stale'' 420 st0))
       = (Inl (BadPassword, ''bad_password''), ''stale'', 1)
   \<and> client_login mock ''ada'' ''guess'' ''stale'' 1 = (Inl (BadPassword, ''bad_password''), ''stale'', 2)
   \<and> markup_failure (with_file ''stale'' 420 st0) ''red''
        (login_error_text (BadPassword, ''bad_password'')) = None
   \<and> fst (login mock ''ada'' ''guess'' (with_file ''stale'' 420 st0))
       = Inl (BadPassword, ''bad_password'')
   \<and> files (fsys (snd (login mock ''ada'' ''guess'' (with_file ''stale'' 420 st0))))
        (session_file st0) = Some (''stale'', 420)"
  using login_fallback_after_rejected_session
      [where s = "with_file ''stale'' 420 st0" and L = mock and ?c0.0 = "''stale''"
         and uname = "''ada''" and password = "''secret''"
         and e = "(LoginRequired, ''login_required'')" and ?c1.0 = "[]" and ?r1.0 = 1
         and b = True and ?c2.0 = "''session of ada''" and ?r2.0 = 2]
    login_fallback_after_rejected_session
      [where s = "with_file ''stale'' 420 st0" and L = mock and ?c0.0 = "''stale''"
         and uname = "''ada''" and password = "''guess''"
         and e = "(BadPassword, ''bad_password'')" and ?c1.0 = "''stale''" and ?r1.0 = 1
         and ?c2.0 = "''stale''" and ?r2.0 = 2 and ?e2.0 = "(BadPassword, ''bad_password'')"]
  by (simp add: markup_failure_def login_error_text_def fs_defs double_defs)

text \<open>
  The fallback runs on the client that was hydrated from the stored session: with a
  library that rejects that client again, \<open>login\<close> raises although a login on a new
  client would be accepted, and the stored file stays.
\<close>

lemma login_reuses_client_example:
  "client_login mock_sticky ''ada'' ''secret'' (new_client mock_sticky) 2 =
      (Inr True, ''session of ada'', 3)
   \<and> login mock_sticky ''ada'' ''secret'' (with_file ''stale'' 420 st0) =
      (Inl (LoginRequired, ''login_required''),
       (with_file ''stale'' 420 st0)
         \<lparr>remote := 2,
          trace := [InfoMsg ''Found existing session, attempting to reuse...'', Call ''login'',
                    InfoMsg ''Existing session invalid, creating new one...'',
                    InfoMsg ''Logging in to Instagram...'', Call ''login'',
                    ErrorMsg ''Login failed: login_required'']\<rparr>)"
  by (simp add: login_def login_fallback_def login_new_session_def report_and_raise_def
      try_except_def then_do_def emit_def info_message_def error_message_def console_print_def
      call_def markup_failure_def login_error_text_def session_invalid_text_def
      mock_sticky_def fs_defs double_defs)

section \<open>Obtaining a client\<close>

lemma session_expired_report:
  "report_and_raise session_expired_text e s =
     (Inl e, s\<lparr>trace := trace s @ [ErrorMsg ''Session expired. Please login again.'']\<rparr>)"
  unfolding session_expired_text_def
  by (rule report_and_raise_prints) (simp add: markup_failure_def)

lemma is_authenticated_True:
  assumes "session_exists s"
    and "load_settings L s = Inr c0"
    and "client_account_info L c0 (remote s) = (Inr u, ca, r0)"
  shows "is_authenticated L s = (True, s\<lparr>remote := r0, trace := trace s @ [Call ''account_info'']\<rparr>)"
  using assms by (simp add: is_authenticated_def call_def emit_def)

text \<open>
  C6, as the code has it. \<open>get_client\<close> raises \<open>LoginRequired\<close> with the message
  \<open>Not authenticated. Please login first.\<close> whenever \<open>is_authenticated\<close> is false.
  When the session file exists, loads and passes the account probe, it loads the
  session into a new client and fetches the timeline feed; when that fetch raises
  \<open>LoginRequired\<close>, it reports \<open>Session expired. Please login again.\<close> and raises
  that same exception, of the same class as the first failure, with no login call.
\<close>

theorem get_client_failures:
  "(fst (is_authenticated L s) = False
      \<longrightarrow> get_client L s =
          (Inl (LoginRequired, ''Not authenticated. Please login first.''),
           snd (is_authenticated L s)))
   \<and> (session_exists s
        \<and> load_settings L s = Inr c0
        \<and> client_account_info L c0 (remote s) = (Inr u, ca, r0)
        \<and> client_get_timeline_feed L c0 r0 = (Inl (LoginRequired, msg), c1, r1)
      \<longrightarrow> get_client L s =
          (Inl (LoginRequired, msg),
           s\<lparr>remote := r1,
             trace := trace s @
               [Call ''account_info'', Call ''get_timeline_feed'',
                ErrorMsg ''Session expired. Please login again.'']\<rparr>))"
proof (intro conjI impI)
  assume "fst (is_authenticated L s) = False"
  then show "get_client L s =
          (Inl (LoginRequired, ''Not authenticated. Please login first.''),
           snd (is_authenticated L s))"
    by (cases "is_authenticated L s") (simp add: get_client_def not_authenticated_text_def)
next
  assume a: "session_exists s
        \<and> load_settings L s = Inr c0
        \<and> client_account_info L c0 (remote s) = (Inr u, ca, r0)
        \<and> client_get_timeline_feed L c0 r0 = (Inl (LoginRequired, msg), c1, r1)"
  let ?s1 = "s\<lparr>remote := r0, trace := trace s @ [Call ''account_info'']\<rparr>"
  have auth: "is_authenticated L s = (True, ?s1)"
    using a by (simp add: is_authenticated_True)
  have ld: "load_settings L ?s1 = Inr c0"
    using a by (simp add: load_settings_def)
  show "get_client L s =
          (Inl (LoginRequired, msg),
           s\<lparr>remote := r1,
             trace := trace s @
               [Call ''account_info'', Call ''get_timeline_feed'',
                ErrorMsg ''Session expired. Please login again.'']\<rparr>)"
    using a
    by (simp add: get_client_def auth ld call_def emit_def session_expired_report)
qed

text \<open>
  C6 as stated fails: without a session file and with a session that passes the
  account probe and is then refused by the feed, \<open>get_client\<close> raises exceptions of
  one and the same class.
\<close>

theorem get_client_same_class_counterexample:
  "fst (get_client mock logged_out) =
      Inl (LoginRequired, ''Not authenticated. Please login first.'')
   \<and> fst (get_client mock (with_file ''expired'' 384 st0)) =
      Inl (LoginRequired, ''login_required'')
   \<and> raised_class (fst (get_client mock (with_file ''expired'' 384 st0))) =
      raised_class (fst (get_client mock logged_out))"
  by (simp add: get_client_def is_authenticated_def call_def emit_def session_expired_report
      raised_class_def not_authenticated_text_def logged_out_def fs_defs double_defs)

theorem get_client_failures_witness:
  "fst (is_authenticated mock logged_out) = False
   \<and> get_client mock logged_out =
       (Inl (LoginRequired, ''Not authenticated. Please login first.''), logged_out)
   \<and> session_exists (with_file ''expired'' 384 st0)
   \<and> load_settings mock (with_file ''expired'' 384 st0) = Inr ''expired''
   \<and> client_account_info mock ''expired'' (remote (with_file ''expired'' 384 st0)) =
       (Inr (), ''expired'', 1)
   \<and> client_get_timeline_feed mock ''expired'' 1 =
       (Inl (LoginRequired, ''login_required''), ''expired'', 2)
   \<and> get_client mock (with_file ''expired'' 384 st0) =
       (Inl (LoginRequired, ''login_required''),
        (with_file ''expired'' 384 st0)
          \<lparr>remote := 2,
           trace := [Call ''account_info'', Call ''get_timeline_feed'',
                     ErrorMsg ''Session expired. Please login again.'']\<rparr>)"
  using get_client_failures [of mock logged_out]
    get_client_failures
      [of mock "with_file ''expired'' 384 st0" "''expired''" "()" "''expired''" 1
          "''login_required''" "''expired''" 2]
  by (simp add: is_authenticated_def session_exists_def path_exists_def load_settings_def
      read_file_def logged_out_def double_defs)

section \<open>Account operations and the retry wrapper\<close>

text \<open>
  C4 fails on the code. \<open>get_account_stats\<close> and \<open>get_current_user\<close> call
  \<open>user_info\<close> directly: with a service that is rate limited for two calls and
  answers the third, each raises the rate-limit error after a single call and no
  sleep, while \<open>get_user_info\<close>, which wraps the same method, sleeps and calls again.
\<close>

theorem account_stats_not_retried:
  "client_user_info mock (client_user_id mock ''session'') ''session'' 0 =
      (Inl (RateLimitError, ''Please wait a few minutes''), ''session'', 1)
   \<and> client_user_info mock (client_user_id mock ''session'') ''session'' 2 =
      (Inr user0, ''session'', 3)
   \<and> get_account_stats mock st0 =
      (Inl (RateLimitError, ''Please wait a few minutes''),
       st0\<lparr>remote := 1,
          trace := [Call ''user_info'',
                    ErrorMsg ''Failed to get account stats: Please wait a few minutes'']\<rparr>)
   \<and> get_current_user mock st0 =
      (Inl (RateLimitError, ''Please wait a few minutes''),
       st0\<lparr>remote := 1,
          trace := [Call ''user_info'',
                    ErrorMsg ''Failed to get current user info: Please wait a few minutes'']\<rparr>)
   \<and> trace (snd (get_user_info mock ''@ada'' st0)) =
      [Call ''user_id_from_username'', Call ''user_info'',
       InfoMsg ''Rate limited. Waiting 5 seconds before retry...'', Sleep 5,
       Call ''user_info'']"
  by (simp add: get_account_stats_def get_current_user_def get_user_info_def
      try_except_def then_do_def client_prop_def cached_call_def call_def emit_def
      report_and_raise_def error_message_def console_print_def markup_failure_def
      sleep_def returned_def flaky_def lstrip_at_def
      retry_on_rate_limit_def upt_3 initial_retry_delay_def max_retries_def
      retry_loop.simps wait_5 double_defs)

section \<open>The feed\<close>

lemma make_post_well_formed:
  assumes "map_of p ''user'' = None \<or> (\<exists>u. map_of p ''user'' = Some (JObj u))"
  shows "\<exists>j. make_post (JObj p) = Inr j"
  using assms by (auto simp add: make_post_def and_then_def py_get_def)

lemma well_formed_item_cases:
  assumes "well_formed_item item"
  shows "(py_in ''media_or_ad'' item = Inr False \<and> \<not> is_media item)
       \<or> (py_in ''media_or_ad'' item = Inr True \<and> is_media item
           \<and> (\<exists>post j. py_item ''media_or_ad'' item = Inr post \<and> make_post post = Inr j
                  \<and> entry_of item = Inr j))"
proof (cases item)
  case (JObj e)
  show ?thesis
  proof (cases "map_of e ''media_or_ad''")
    case None
    with JObj show ?thesis by (simp add: py_in_def is_media_def)
  next
    case (Some post)
    with JObj assms obtain p where p: "post = JObj p"
      and u: "map_of p ''user'' = None \<or> (\<exists>u. map_of p ''user'' = Some (JObj u))"
      by (auto simp add: well_formed_item_def split: json.splits option.splits)
    from make_post_well_formed [OF u] obtain j where "make_post (JObj p) = Inr j" ..
    with JObj Some p show ?thesis
      by (simp add: py_in_def is_media_def py_item_def entry_of_def and_then_def)
  qed
qed (use assms in \<open>simp_all add: well_formed_item_def\<close>)

lemma collect_posts_well_formed:
  "list_all well_formed_item xs \<Longrightarrow>
   \<exists>ps. collect_posts xs acc = Inr (acc @ ps)
        \<and> map Inr ps = map entry_of (filter is_media xs)"
proof (induction xs arbitrary: acc)
  case Nil
  then show ?case by simp
next
  case (Cons x xs)
  then have wf: "well_formed_item x" and rest: "list_all well_formed_item xs"
    by simp_all
  from well_formed_item_cases [OF wf] show ?case
  proof
    assume a: "py_in ''media_or_ad'' x = Inr False \<and> \<not> is_media x"
    from Cons.IH [OF rest, of acc] obtain ps where
      "collect_posts xs acc = Inr (acc @ ps)"
      "map Inr ps = map entry_of (filter is_media xs)" by blast
    with a show ?thesis by simp
  next
    assume "py_in ''media_or_ad'' x = Inr True \<and> is_media x
           \<and> (\<exists>post j. py_item ''media_or_ad'' x = Inr post \<and> make_post post = Inr j
                  \<and> entry_of x = Inr j)"
    then obtain post j where a: "py_in ''media_or_ad'' x = Inr True" "is_media x"
      "py_item ''media_or_ad'' x = Inr post" "make_post post = Inr j" "entry_of x = Inr j"
      by blast
    from Cons.IH [OF rest, of "acc @ [j]"] obtain ps where
      "collect_posts xs (acc @ [j]) = Inr ((acc @ [j]) @ ps)"
      "map Inr ps = map entry_of (filter is_media xs)" by blast
    with a have "collect_posts (x # xs) acc = Inr (acc @ (j # ps))
        \<and> map Inr (j # ps) = map entry_of (filter is_media (x # xs))"
      by simp
    then show ?thesis by blast
  qed
qed

lemma filter_take_le: "length (filter P (take n xs)) \<le> length (filter P xs)"
proof -
  have "filter P xs = filter P (take n xs) @ filter P (drop n xs)"
    by (metis append_take_drop_id filter_append)
  then show ?thesis by simp
qed

lemma media_among_first_five:
  assumes "length items = 8" and "length (filter (\<lambda>i. \<not> is_media i) items) = 2"
  shows "3 \<le> length (filter is_media (take 5 items))"
proof -
  have "length (filter is_media (take 5 items))
        + length (filter (\<lambda>i. \<not> is_media i) (take 5 items)) = length (take 5 items)"
    by (rule sum_length_filter_compl)
  moreover have "length (take 5 items) = 5" using assms(1) by simp
  moreover have "length (filter (\<lambda>i. \<not> is_media i) (take 5 items)) \<le> 2"
    using filter_take_le [of "\<lambda>i. \<not> is_media i" 5 items] assms(2) by simp
  ultimately show ?thesis by linarith
qed

lemma client_prop_cached: "client_prop L s = (Inr c, s0) \<Longrightarrow> cached s0 = Some c"
  by (auto simp add: client_prop_def split: option.splits prod.splits sum.splits)

text \<open>
  C3, as the code has it. Provided the client is at hand (cached, or obtained from the
  session manager), the first fetch of the feed page returns a JSON object whose
  \<open>feed_items\<close> is a list, and the items kept are well-formed JSON objects:
  \<open>get_feed\<close> keeps \<open>feed_items[:limit]\<close> and returns, in the page's order, the
  entry built from each kept item that carries a \<open>media_or_ad\<close> key. The page is
  cut before the other items are skipped. For \<open>limit \<ge> 0\<close> the kept items are the
  first \<open>limit\<close> ones, so there are at most \<open>limit\<close> entries; for a negative
  \<open>limit\<close> they are all but the last \<open>-limit\<close> ones. For a page of 8 items, 2 of
  them without the key, and \<open>limit = 5\<close>, the number of entries lies between 3 and 5.
\<close>

theorem get_feed_cuts_then_filters:
  assumes "client_prop L s = (Inr c, s0)"
    and "client_get_timeline_feed L c (remote s0) = (Inr (JObj d), c1, r1)"
    and "map_of d ''feed_items'' = Some (JList items)"
    and "list_all well_formed_item (slice_to limit items)"
  shows "\<exists>posts.
      get_feed L limit s =
        (Inr posts,
         s0\<lparr>remote := r1, cached := Some c1, trace := trace s0 @ [Call ''get_timeline_feed'']\<rparr>)
      \<and> map Inr posts = map entry_of (filter is_media (slice_to limit items))
      \<and> length posts = length (filter is_media (slice_to limit items))
      \<and> (0 \<le> limit \<longrightarrow> slice_to limit items = take (nat limit) items \<and> length posts \<le> nat limit)
      \<and> (limit < 0 \<longrightarrow> slice_to limit items = take (length items - nat (- limit)) items)
      \<and> (length items = 8 \<and> length (filter (\<lambda>i. \<not> is_media i) items) = 2 \<and> limit = 5
           \<longrightarrow> 3 \<le> length posts \<and> length posts \<le> 5)"
proof -
  let ?s1 = "s0\<lparr>remote := r1, cached := Some c1, trace := trace s0 @ [Call ''get_timeline_feed'']\<rparr>"
  from collect_posts_well_formed [OF assms(4), of "[]"] obtain posts where
    cp: "collect_posts (slice_to limit items) [] = Inr posts"
    and mp: "map Inr posts = map entry_of (filter is_media (slice_to limit items))"
    by auto
  have len: "length posts = length (filter is_media (slice_to limit items))"
    using arg_cong [OF mp, of length] by simp
  have cached: "cached s0 = Some c"
    using assms(1) by (rule client_prop_cached)
  have call: "cached_call ''get_timeline_feed'' (client_get_timeline_feed L) s0 = (Inr (JObj d), ?s1)"
    using cached assms(2) by (rule cached_call_Some)
  have retry: "retry_on_rate_limit (cached_call ''get_timeline_feed'' (client_get_timeline_feed L)) s0
      = (Inr (Some (JObj d)), ?s1)"
    using call by (rule retry_first_try)
  have fp: "feed_posts limit (JObj d) = Inr posts"
    using assms(3) cp by (simp add: feed_posts_def feed_items_def py_get_def)
  have run: "get_feed L limit s = (Inr posts, ?s1)"
    using assms(1)
    by (simp add: get_feed_def try_except_def then_do_def retry returned_def fp)
  have le: "length posts \<le> length (slice_to limit items)"
    unfolding len by (rule length_filter_le)
  have pos: "0 \<le> limit \<longrightarrow> slice_to limit items = take (nat limit) items \<and> length posts \<le> nat limit"
  proof
    assume "0 \<le> limit"
    then have sl: "slice_to limit items = take (nat limit) items"
      by (simp add: slice_to_def)
    with le show "slice_to limit items = take (nat limit) items \<and> length posts \<le> nat limit"
      by simp
  qed
  have neg: "limit < 0 \<longrightarrow> slice_to limit items = take (length items - nat (- limit)) items"
    by (simp add: slice_to_def)
  have inst: "length items = 8 \<and> length (filter (\<lambda>i. \<not> is_media i) items) = 2 \<and> limit = 5
           \<longrightarrow> 3 \<le> length posts \<and> length posts \<le> 5"
  proof
    assume a: "length items = 8 \<and> length (filter (\<lambda>i. \<not> is_media i) items) = 2 \<and> limit = 5"
    then have sl: "slice_to limit items = take 5 items"
      by (simp add: slice_to_def)
    have "3 \<le> length posts"
      unfolding len sl using a by (simp add: media_among_first_five)
    moreover have "length posts \<le> 5"
      using le unfolding sl by simp
    ultimately show "3 \<le> length posts \<and> length posts \<le> 5" ..
  qed
  from run mp len pos neg inst show ?thesis by blast
qed

lemmas feed_defs = get_feed_def try_except_def then_do_def client_prop_def cached_call_def
  call_def emit_def returned_def retry_on_rate_limit_def upt_max_retries retry_loop.simps(2)
  feed_posts_def feed_items_def py_get_def py_in_def py_item_def make_post_def and_then_def
  slice_to_def mock_feed_def media_item_def suggestion_def built_post_def

text \<open>
  C3 as stated fails: a page of 8 items whose first two are not media, with
  \<open>limit = 5\<close>, yields 3 entries, although the page holds 6 media items.
\<close>

theorem get_feed_five_counterexample:
  "length page_a = 8
   \<and> length (filter (\<lambda>i. \<not> is_media i) page_a) = 2
   \<and> fst (get_feed (mock_feed page_a) 5 st0) =
       Inr [built_post ''1'', built_post ''2'', built_post ''3'']"
  by (simp add: page_a_def is_media_def feed_defs double_defs)

theorem get_feed_cuts_then_filters_witness:
  "client_prop (mock_feed page_b) st0 = (Inr ''session'', st0)
   \<and> client_get_timeline_feed (mock_feed page_b) ''session'' (remote st0) =
       (Inr (JObj [(''num_results'', JInt 8), (''feed_items'', JList page_b)]), ''session'', 1)
   \<and> map_of [(''num_results'', JInt 8), (''feed_items'', JList page_b)] ''feed_items'' =
       Some (JList page_b)
   \<and> list_all well_formed_item (slice_to 5 page_b)
   \<and> length page_b = 8 \<and> length (filter (\<lambda>i. \<not> is_media i) page_b) = 2
   \<and> get_feed (mock_feed page_b) 5 st0 =
       (Inr [built_post ''1'', built_post ''2'', built_post ''3'', built_post ''4''],
        st0\<lparr>remote := 1, cached := Some ''session'', trace := [Call ''get_timeline_feed'']\<rparr>)
   \<and> client_prop (mock_feed page_b) (with_file ''good'' 384 st0) =
       (Inr ''good'',
        (with_file ''good'' 384 st0)
          \<lparr>remote := 2, cached := Some ''good'',
           trace := [Call ''account_info'', Call ''get_timeline_feed'']\<rparr>)
   \<and> client_get_timeline_feed (mock_feed page_b) ''good'' 2 =
       (Inr (JObj [(''num_results'', JInt 8), (''feed_items'', JList page_b)]), ''good'', 3)
   \<and> list_all well_formed_item (slice_to (- 3) page_b)
   \<and> get_feed (mock_feed page_b) (- 3) (with_file ''good'' 384 st0) =
       (Inr [built_post ''1'', built_post ''2'', built_post ''3'', built_post ''4''],
        (with_file ''good'' 384 st0)
          \<lparr>remote := 3, cached := Some ''good'',
           trace := [Call ''account_info'', Call ''get_timeline_feed'',
                     Call ''get_timeline_feed'']\<rparr>)"
  using get_feed_cuts_then_filters
      [where s = st0 and L = "mock_feed page_b" and c = "''session''" and ?s0.0 = st0
         and d = "[(''num_results'', JInt 8), (''feed_items'', JList page_b)]"
         and ?c1.0 = "''session''" and ?r1.0 = 1 and items = page_b and limit = 5]
    get_feed_cuts_then_filters
      [where s = "with_file ''good'' 384 st0" and L = "mock_feed page_b" and c = "''good''"
         and ?s0.0 = "(with_file ''good'' 384 st0)
            \<lparr>remote := 2, cached := Some ''good'',
             trace := [Call ''account_info'', Call ''get_timeline_feed'']\<rparr>"
         and d = "[(''num_results'', JInt 8), (''feed_items'', JList page_b)]"
         and ?c1.0 = "''good''" and ?r1.0 = 3 and items = page_b and limit = "- 3"]
  by (simp add: page_b_def is_media_def entry_of_def well_formed_item_def get_client_def
      is_authenticated_def feed_defs fs_defs double_defs)

section \<open>Posting a photo\<close>

lemma post_photo_rejects:
  assumes "expanduser (fsys s) photo_path = Some photo_file"
    and "path_exists photo_file (fsys s)"
    and "lower (path_suffix photo_file) \<notin> set photo_suffixes"
  shows "post_photo L photo_path caption s =
      (Inr False, s\<lparr>trace := trace s @ [ErrorMsg ''Photo must be JPG, JPEG, or PNG format'']\<rparr>)"
proof -
  have "error_message ''Photo must be JPG, JPEG, or PNG format'' s =
      (Inr (), s\<lparr>trace := trace s @ [ErrorMsg ''Photo must be JPG, JPEG, or PNG format'']\<rparr>)"
    by (rule error_message_prints) (simp add: markup_failure_def)
  then show ?thesis
    using assms by (simp add: post_photo_def try_except_def then_do_def)
qed

lemma report_and_raise_no_call:
  "remote (snd (report_and_raise m e s)) = remote s
   \<and> cached (snd (report_and_raise m e s)) = cached s
   \<and> fsys (snd (report_and_raise m e s)) = fsys s
   \<and> filter is_call (trace (snd (report_and_raise m e s))) = filter is_call (trace s)"
  by (simp add: report_and_raise_def then_do_def error_message_def console_print_def emit_def
      split: option.splits)

lemma post_photo_missing_no_call:
  assumes "expanduser (fsys s) photo_path = Some photo_file"
    and "\<not> path_exists photo_file (fsys s)"
  shows "remote (snd (post_photo L photo_path caption s)) = remote s
   \<and> cached (snd (post_photo L photo_path caption s)) = cached s
   \<and> fsys (snd (post_photo L photo_path caption s)) = fsys s
   \<and> filter is_call (trace (snd (post_photo L photo_path caption s))) = filter is_call (trace s)"
proof (cases "markup_failure s ''red'' (''Photo file not found: '' @ photo_path)")
  case None
  then show ?thesis
    using assms by (simp add: post_photo_def try_except_def then_do_def error_message_prints)
next
  case (Some e)
  then have "post_photo L photo_path caption s =
      report_and_raise (''Failed to post photo: '' @ snd e) e s"
    using assms by (simp add: post_photo_def try_except_def then_do_def error_message_raises)
  then show ?thesis
    by (simp add: report_and_raise_no_call)
qed

text \<open>
  C9, as the code has it. \<open>post_photo\<close> checks the expanded path before anything
  else. When the existence check answers that the file is missing, and the line
  \<open>Photo file not found: <path>\<close> prints, it returns \<open>False\<close> without raising. When
  the file exists with a suffix that, lowered, is none of \<open>.jpg\<close>, \<open>.jpeg\<close>,
  \<open>.png\<close> (so for \<open>.gif\<close>), it prints \<open>Photo must be JPG, JPEG, or PNG format\<close> and
  returns \<open>False\<close> without raising. In both cases, whether or not the line prints, no
  remote method is called: the remote state, the cached client and the files are as
  before and the trace has no new call. When the checks pass, the client is at hand,
  the upload returns a media object and the two progress lines print, it returns
  \<open>True\<close>; the media identifier appears in the success message only.
\<close>

theorem post_photo_validates_first:
  assumes "expanduser (fsys s) photo_path = Some photo_file"
  shows "(\<not> path_exists photo_file (fsys s)
        \<and> markup_failure s ''red'' (''Photo file not found: '' @ photo_path) = None
      \<longrightarrow> post_photo L photo_path caption s =
          (Inr False, s\<lparr>trace := trace s @ [ErrorMsg (''Photo file not found: '' @ photo_path)]\<rparr>))
   \<and> (path_exists photo_file (fsys s)
        \<and> lower (path_suffix photo_file) \<notin> set [''.jpg'', ''.jpeg'', ''.png'']
      \<longrightarrow> post_photo L photo_path caption s =
          (Inr False,
           s\<lparr>trace := trace s @ [ErrorMsg ''Photo must be JPG, JPEG, or PNG format'']\<rparr>))
   \<and> (path_exists photo_file (fsys s) \<and> lower (path_suffix photo_file) = ''.gif''
      \<longrightarrow> post_photo L photo_path caption s =
          (Inr False,
           s\<lparr>trace := trace s @ [ErrorMsg ''Photo must be JPG, JPEG, or PNG format'']\<rparr>))
   \<and> (\<not> path_exists photo_file (fsys s)
        \<or> lower (path_suffix photo_file) \<notin> set [''.jpg'', ''.jpeg'', ''.png'']
      \<longrightarrow> remote (snd (post_photo L photo_path caption s)) = remote s
          \<and> cached (snd (post_photo L photo_path caption s)) = cached s
          \<and> fsys (snd (post_photo L photo_path caption s)) = fsys s
          \<and> filter is_call (trace (snd (post_photo L photo_path caption s))) =
              filter is_call (trace s))
   \<and> (path_exists photo_file (fsys s)
        \<and> lower (path_suffix photo_file) \<in> set [''.jpg'', ''.jpeg'', ''.png'']
        \<and> markup_failure s ''blue'' (''Uploading photo: '' @ path_name photo_file) = None
        \<and> client_prop L (s\<lparr>trace := trace s @
              [InfoMsg (''Uploading photo: '' @ path_name photo_file)]\<rparr>) = (Inr c, s0)
        \<and> client_photo_upload L photo_file caption c (remote s0) = (Inr (Some pk), c1, r1)
        \<and> markup_failure s0 ''green'' (''Photo posted successfully! Media ID: '' @ pk) = None
      \<longrightarrow> post_photo L photo_path caption s =
          (Inr True,
           s0\<lparr>remote := r1, cached := Some c1,
              trace := trace s0 @
                [Call ''photo_upload'',
                 SuccessMsg (''Photo posted successfully! Media ID: '' @ pk)]\<rparr>))"
proof (intro conjI impI)
  assume "\<not> path_exists photo_file (fsys s)
        \<and> markup_failure s ''red'' (''Photo file not found: '' @ photo_path) = None"
  then show "post_photo L photo_path caption s =
          (Inr False, s\<lparr>trace := trace s @ [ErrorMsg (''Photo file not found: '' @ photo_path)]\<rparr>)"
    using assms by (simp add: post_photo_def try_except_def then_do_def error_message_prints)
next
  assume "path_exists photo_file (fsys s)
        \<and> lower (path_suffix photo_file) \<notin> set [''.jpg'', ''.jpeg'', ''.png'']"
  then show "post_photo L photo_path caption s =
          (Inr False,
           s\<lparr>trace := trace s @ [ErrorMsg ''Photo must be JPG, JPEG, or PNG format'']\<rparr>)"
    using assms by (simp add: post_photo_rejects photo_suffixes_def)
next
  assume "path_exists photo_file (fsys s) \<and> lower (path_suffix photo_file) = ''.gif''"
  then show "post_photo L photo_path caption s =
          (Inr False,
           s\<lparr>trace := trace s @ [ErrorMsg ''Photo must be JPG, JPEG, or PNG format'']\<rparr>)"
    using assms by (simp add: post_photo_rejects photo_suffixes_def)
next
  assume a: "\<not> path_exists photo_file (fsys s)
        \<or> lower (path_suffix photo_file) \<notin> set [''.jpg'', ''.jpeg'', ''.png'']"
  let ?R = "post_photo L photo_path caption s"
  have "remote (snd ?R) = remote s \<and> cached (snd ?R) = cached s \<and> fsys (snd ?R) = fsys s
      \<and> filter is_call (trace (snd ?R)) = filter is_call (trace s)"
  proof (cases "path_exists photo_file (fsys s)")
    case False
    with assms show ?thesis by (rule post_photo_missing_no_call)
  next
    case True
    with a have "lower (path_suffix photo_file) \<notin> set photo_suffixes"
      by (simp add: photo_suffixes_def)
    with assms True show ?thesis by (simp add: post_photo_rejects)
  qed
  then show "remote (snd ?R) = remote s" and "cached (snd ?R) = cached s"
    and "fsys (snd ?R) = fsys s"
    and "filter is_call (trace (snd ?R)) = filter is_call (trace s)"
    by simp_all
next
  assume a: "path_exists photo_file (fsys s)
        \<and> lower (path_suffix photo_file) \<in> set [''.jpg'', ''.jpeg'', ''.png'']
        \<and> markup_failure s ''blue'' (''Uploading photo: '' @ path_name photo_file) = None
        \<and> client_prop L (s\<lparr>trace := trace s @
              [InfoMsg (''Uploading photo: '' @ path_name photo_file)]\<rparr>) = (Inr c, s0)
        \<and> client_photo_upload L photo_file caption c (remote s0) = (Inr (Some pk), c1, r1)
        \<and> markup_failure s0 ''green'' (''Photo posted successfully! Media ID: '' @ pk) = None"
  let ?i = "s\<lparr>trace := trace s @ [InfoMsg (''Uploading photo: '' @ path_name photo_file)]\<rparr>"
  let ?s1 = "s0\<lparr>remote := r1, cached := Some c1, trace := trace s0 @ [Call ''photo_upload'']\<rparr>"
  have info: "info_message (''Uploading photo: '' @ path_name photo_file) s = (Inr (), ?i)"
    using a by (simp add: info_message_prints)
  have cl: "client_prop L ?i = (Inr c, s0)"
    using a by simp
  have c0: "cached s0 = Some c"
    using cl by (rule client_prop_cached)
  have call: "cached_call ''photo_upload'' (client_photo_upload L photo_file caption) s0
      = (Inr (Some pk), ?s1)"
    using c0 by (rule cached_call_Some) (use a in simp)
  have retry: "retry_on_rate_limit
      (cached_call ''photo_upload'' (client_photo_upload L photo_file caption)) s0
      = (Inr (Some (Some pk)), ?s1)"
    using call by (rule retry_first_try)
  have "markup_failure ?s1 ''green'' (''Photo posted successfully! Media ID: '' @ pk) = None"
    using a by (simp add: markup_failure_def)
  then have printed: "success_message (''Photo posted successfully! Media ID: '' @ pk) ?s1 =
      (Inr (), ?s1\<lparr>trace := trace ?s1 @
          [SuccessMsg (''Photo posted successfully! Media ID: '' @ pk)]\<rparr>)"
    by (rule success_message_prints)
  have suf: "lower (path_suffix photo_file) \<in> set photo_suffixes"
    using a by (simp add: photo_suffixes_def)
  have ex: "path_exists photo_file (fsys s)"
    using a by simp
  have body: "then_do (info_message (''Uploading photo: '' @ path_name photo_file)) (\<lambda>u0.
       then_do (client_prop L) (\<lambda>c.
       then_do (retry_on_rate_limit
                  (cached_call ''photo_upload'' (client_photo_upload L photo_file caption)))
         (\<lambda>media.
           case media of
             Some (Some pk) \<Rightarrow>
               then_do (success_message (''Photo posted successfully! Media ID: '' @ pk))
                 (\<lambda>u1 s1. (Inr True, s1))
           | _ \<Rightarrow>
               then_do (error_message ''Failed to post photo'')
                 (\<lambda>u1 s1. (Inr False, s1))))) s =
      (Inr True, ?s1\<lparr>trace := trace ?s1 @
          [SuccessMsg (''Photo posted successfully! Media ID: '' @ pk)]\<rparr>)"
    unfolding then_do_def info by (simp add: cl [simplified] retry [simplified] printed [simplified])
  show "post_photo L photo_path caption s =
          (Inr True,
           s0\<lparr>remote := r1, cached := Some c1,
              trace := trace s0 @
                [Call ''photo_upload'',
                 SuccessMsg (''Photo posted successfully! Media ID: '' @ pk)]\<rparr>)"
    unfolding post_photo_def try_except_def
    by (simp only: assms option.case ex suf simp_thms if_True if_False body prod.case sum.case)
      simp
qed

lemmas photo_defs = post_photo_def try_except_def then_do_def client_prop_def cached_call_def
  call_def emit_def info_message_def error_message_def success_message_def console_print_def
  markup_failure_def report_and_raise_def retry_on_rate_limit_def upt_max_retries
  retry_loop.simps(2) path_exists_def path_suffix_def path_name_def
  lower_def lower_char_def photo_suffixes_def pics_def mock_upload_def

text \<open>
  C9 as stated fails: two uploads that produce different media identifiers make
  \<open>post_photo\<close> return the same value, \<open>True\<close>; the identifier is not returned.
\<close>

theorem post_photo_returns_bool_counterexample:
  "fst (post_photo (mock_upload ''3141'') ''/pics/Cat.JPG'' ''hello'' pics) = Inr True
   \<and> fst (post_photo (mock_upload ''2718'') ''/pics/Cat.JPG'' ''hello'' pics) = Inr True"
  by (simp add: photo_defs double_defs)

theorem post_photo_validates_first_witness:
  "expanduser (fsys pics) ''/pics/dog.png'' = Some ''/pics/dog.png''
   \<and> \<not> path_exists ''/pics/dog.png'' (fsys pics)
   \<and> markup_failure pics ''red'' ''Photo file not found: /pics/dog.png'' = None
   \<and> post_photo (mock_upload ''3141'') ''/pics/dog.png'' ''hello'' pics =
       (Inr False, pics\<lparr>trace := [ErrorMsg ''Photo file not found: /pics/dog.png'']\<rparr>)
   \<and> expanduser (fsys pics) ''/pics/cat.gif'' = Some ''/pics/cat.gif''
   \<and> path_exists ''/pics/cat.gif'' (fsys pics)
   \<and> lower (path_suffix ''/pics/cat.gif'') = ''.gif''
   \<and> ''.gif'' \<notin> set [''.jpg'', ''.jpeg'', ''.png'']
   \<and> post_photo (mock_upload ''3141'') ''/pics/cat.gif'' ''hello'' pics =
       (Inr False, pics\<lparr>trace := [ErrorMsg ''Photo must be JPG, JPEG, or PNG format'']\<rparr>)
   \<and> remote (snd (post_photo (mock_upload ''3141'') ''/pics/cat.gif'' ''hello'' pics)) = 0
   \<and> filter is_call (trace (snd (post_photo (mock_upload ''3141'') ''/pics/cat.gif'' ''hello'' pics)))
       = []
   \<and> expanduser (fsys pics) ''/pics/d[/b].png'' = Some ''/pics/d[/b].png''
   \<and> \<not> path_exists ''/pics/d[/b].png'' (fsys pics)
   \<and> fst (post_photo (mock_upload ''3141'') ''/pics/d[/b].png'' ''hello'' pics) =
       Inl (MarkupError, ''closing tag [/b] does not match any open tag'')
   \<and> remote (snd (post_photo (mock_upload ''3141'') ''/pics/d[/b].png'' ''hello'' pics)) = 0
   \<and> filter is_call
         (trace (snd (post_photo (mock_upload ''3141'') ''/pics/d[/b].png'' ''hello'' pics))) = []
   \<and> expanduser (fsys pics) ''/pics/Cat.JPG'' = Some ''/pics/Cat.JPG''
   \<and> path_exists ''/pics/Cat.JPG'' (fsys pics)
   \<and> lower (path_suffix ''/pics/Cat.JPG'') = ''.jpg''
   \<and> markup_failure pics ''blue'' ''Uploading photo: Cat.JPG'' = None
   \<and> client_prop (mock_upload ''3141'') (pics\<lparr>trace := [InfoMsg ''Uploading photo: Cat.JPG'']\<rparr>) =
       (Inr ''session'', pics\<lparr>trace := [InfoMsg ''Uploading photo: Cat.JPG'']\<rparr>)
   \<and> client_photo_upload (mock_upload ''3141'') ''/pics/Cat.JPG'' ''hello'' ''session'' 0 =
       (Inr (Some ''3141''), ''session'', 1)
   \<and> markup_failure pics ''green'' ''Photo posted successfully! Media ID: 3141'' = None
   \<and> post_photo (mock_upload ''3141'') ''/pics/Cat.JPG'' ''hello'' pics =
       (Inr True,
        pics\<lparr>remote := 1, cached := Some ''session'',
          trace := [InfoMsg ''Uploading photo: Cat.JPG'', Call ''photo_upload'',
                    SuccessMsg ''Photo posted successfully! Media ID: 3141'']\<rparr>)"
  using post_photo_validates_first
      [where s = pics and photo_path = "''/pics/dog.png''" and photo_file = "''/pics/dog.png''"
         and L = "mock_upload ''3141''" and caption = "''hello''"]
    post_photo_validates_first
      [where s = pics and photo_path = "''/pics/cat.gif''" and photo_file = "''/pics/cat.gif''"
         and L = "mock_upload ''3141''" and caption = "''hello''"]
    post_photo_validates_first
      [where s = pics and photo_path = "''/pics/d[/b].png''" and photo_file = "''/pics/d[/b].png''"
         and L = "mock_upload ''3141''" and caption = "''hello''"]
    post_photo_validates_first
      [where s = pics and photo_path = "''/pics/Cat.JPG''" and photo_file = "''/pics/Cat.JPG''"
         and L = "mock_upload ''3141''" and caption = "''hello''" and c = "''session''"
         and ?s0.0 = "pics\<lparr>trace := [InfoMsg ''Uploading photo: Cat.JPG'']\<rparr>"
         and pk = "''3141''" and ?c1.0 = "''session''" and ?r1.0 = 1]
  by (simp add: photo_defs double_defs rich0_def)

end
